theory Spec2Isabelle
  imports Complex_Main
begin

section \<open>JavaScript values carried by request bodies\<close>

text \<open>
  The routes read their input with \<^verbatim>\<open>await request.json()\<close>, so what
  reaches them is whatever JSON the caller sent; the TypeScript interfaces are not checked
  at run time. A value is therefore one of the JSON shapes, or \<open>Undefined\<close> for a
  member that is absent. A number is the value of the parsed double, a rational.
\<close>

datatype jsval =
    Undefined
  | Null
  | Bool bool
  | Num rat
  | Str string
  | Arr "jsval list"
  | Obj "(string \<times> jsval) list"

text \<open>JavaScript truthiness, as tested by \<^verbatim>\<open>!x\<close>.\<close>

fun truthy :: "jsval \<Rightarrow> bool" where
  "truthy Undefined = False"
| "truthy Null = False"
| "truthy (Bool b) = b"
| "truthy (Num n) = (n \<noteq> 0)"
| "truthy (Str s) = (s \<noteq> [])"
| "truthy (Arr xs) = True"
| "truthy (Obj kvs) = True"

text \<open>A thrown value: an \<^verbatim>\<open>Error\<close> with its message, or anything else.\<close>

datatype thrown = Error string | NonError

text \<open>
  Object destructuring \<^verbatim>\<open>const { a, b } = body\<close>. It throws a TypeError on
  \<^verbatim>\<open>null\<close>; on an object it reads the members (the last of duplicate keys, as
  \<^verbatim>\<open>JSON.parse\<close> keeps it); a boolean, number, string or array has none of the
  members the routes ask for.
\<close>

definition destructure_message :: string where
  "destructure_message = ''Cannot destructure property of null''"

definition field :: "(string \<times> jsval) list \<Rightarrow> string \<Rightarrow> jsval" where
  "field kvs k = (case map_of (rev kvs) k of None \<Rightarrow> Undefined | Some v \<Rightarrow> v)"

fun destructure :: "jsval \<Rightarrow> thrown + (string \<Rightarrow> jsval)" where
  "destructure Null = Inl (Error destructure_message)"
| "destructure Undefined = Inl (Error destructure_message)"
| "destructure (Obj kvs) = Inr (field kvs)"
| "destructure v = Inr (\<lambda>k. Undefined)"

text \<open>
  A request: \<^verbatim>\<open>request.json()\<close> either rejects (the body is not JSON) or yields
  the parsed value.
\<close>

type_synonym request = "thrown + jsval"

section \<open>Types of \<^verbatim>\<open>lib/types.ts\<close> and of the client libraries\<close>

text \<open>\<^verbatim>\<open>GaslessTransaction\<close> of the gas station client, as the routes fill it.\<close>

record gasless_transaction =
  txKind :: string
  gasless_sender :: jsval
  gasBudget :: "jsval"
  gasPrice :: "jsval"

text \<open>\<^verbatim>\<open>SponsoredTransaction\<close>, the gas station's answer.\<close>

record sponsored_transaction =
  sponsored_txBytes :: string
  sponsored_signature :: string
  sponsored_txDigest :: string

text \<open>\<^verbatim>\<open>SuiTransactionBlockResponse\<close>: the digest, the effects, and the other members.\<close>

record transaction_block_response =
  tx_digest :: string
  tx_effects :: jsval
  tx_rest :: "(string \<times> jsval) list"

text \<open>\<^verbatim>\<open>CoinStruct\<close> (its balance, a decimal string in the SDK, as the number it
  denotes) and the page \<^verbatim>\<open>getCoins\<close> returns.\<close>

record coin_struct =
  coinObjectId :: string
  coin_balance :: nat

record paginated_coins =
  coins_data :: "coin_struct list option"

text \<open>
  The commands a transaction builder callback records. \<open>U64\<close> is the pure argument
  \<^verbatim>\<open>txb.pure.u64(v)\<close> has produced; \<open>Pure_u64\<close> is a raw amount handed to
  \<^verbatim>\<open>txb.splitCoins\<close>, which the SDK encodes by itself.
\<close>

datatype argument =
    Pure_u64 jsval
  | U64 nat
  | ObjectRef string
  | Recipient jsval
  | NestedResult nat nat

datatype command =
    MoveCall string "argument list"
  | SplitCoins argument "argument list"
  | TransferObjects "argument list" argument

text \<open>Bodies of the HTTP responses (\<^verbatim>\<open>ErrorResponse\<close>,
  \<^verbatim>\<open>BuildSponsoredTxResponse\<close>, \<^verbatim>\<open>ExecuteSponsoredTxResponse\<close>).\<close>

datatype response_body =
    ErrorResponse string "string option"
  | BuildSponsoredTxResponse string string string
  | ExecuteSponsoredTxResponse transaction_block_response

datatype http_response = NextResponse response_body nat

fun status :: "http_response \<Rightarrow> nat" where
  "status (NextResponse b s) = s"

fun body :: "http_response \<Rightarrow> response_body" where
  "body (NextResponse b s) = b"

section \<open>External collaborators\<close>

text \<open>
  The two ledger clients: the backend's \<^verbatim>\<open>suiClient\<close> of
  \<^verbatim>\<open>lib/shinami-client.ts\<close> and the browser's \<^verbatim>\<open>useSuiClient()\<close>.
\<close>

datatype client = ShinamiNode | DappKitNode

text \<open>
  Everything outside the repository is a parameter: the environment, the transaction
  builder of the SDK (\<open>Inl\<close> when it throws while building the commands), the gas
  station, the ledger node, the wallet, the HTTP transport from the browser to the routes
  (a request may fail to reach the route, and a response may fail to reach the browser
  after the route has run), and the JavaScript built-ins whose results the handlers use
  (\<open>None\<close> of a parse is NaN; the value thrown for what is no u64; the engine's
  conversion of a boolean, string, array or object to an integer). Each handler calls each
  service at most once, so a function per service describes one run.
\<close>

record world =
  NEXT_PUBLIC_MOVE_PACKAGE_ID :: "string option"
  buildTransactionKind :: "command list \<Rightarrow> thrown + string"
  sponsorTransaction :: "gasless_transaction \<Rightarrow> thrown + sponsored_transaction"
  getCoins :: "jsval \<Rightarrow> string \<Rightarrow> thrown + paginated_coins"
  executeTransactionBlock :: "client \<Rightarrow> jsval \<Rightarrow> jsval list \<Rightarrow> thrown + transaction_block_response"
  signTransaction :: "jsval \<Rightarrow> thrown + string"
  fetch_rejects :: "string \<Rightarrow> thrown option"
  response_lost :: "string \<Rightarrow> thrown option"
  u64_rejection :: "jsval \<Rightarrow> thrown"
  u64_of_other :: "jsval \<Rightarrow> thrown + nat"
  parseInt :: "string \<Rightarrow> int option"
  parseFloat :: "string \<Rightarrow> rat option"
  ToNumber :: "jsval \<Rightarrow> rat option"
  String_of :: "jsval \<Rightarrow> string"

text \<open>
  The calls a handler makes to the collaborators, in the order it makes them.
  \<open>BuildGaslessCall\<close> is the SDK building the commands the callback has recorded.
\<close>

datatype event =
    GetCoinsCall jsval string
  | BuildGaslessCall "command list"
  | SponsorCall gasless_transaction
  | SignCall jsval
  | ExecuteCall client jsval "jsval list"

text \<open>The \<^verbatim>\<open>catch\<close> block of a route: status 500, the route's text, and the
  message of the thrown value as details.\<close>

fun error_details :: "thrown \<Rightarrow> string" where
  "error_details (Error m) = m"
| "error_details NonError = ''Unknown error''"

definition caught :: "string \<Rightarrow> thrown \<Rightarrow> http_response" where
  "caught text t = NextResponse (ErrorResponse text (Some (error_details t))) 500"

section \<open>\<^verbatim>\<open>app/api/executeSponsoredTx/route.ts\<close>\<close>

definition execute_required_message :: string where
  "execute_required_message =
     ''Transaction bytes, sponsor signature, and sender signature are all required''"

definition execute_failed_message :: string where
  "execute_failed_message = ''Failed to execute transaction''"

definition POST_execute :: "world \<Rightarrow> request \<Rightarrow> event list \<times> http_response" where
  "POST_execute w req =
     (case req of
        Inl t \<Rightarrow> ([], caught execute_failed_message t)
      | Inr parsed \<Rightarrow>
          (case destructure parsed of
             Inl t \<Rightarrow> ([], caught execute_failed_message t)
           | Inr member \<Rightarrow>
               (let txBytes = member ''txBytes'';
                    sponsorSignature = member ''sponsorSignature'';
                    senderSignature = member ''senderSignature''
                in if \<not> truthy txBytes \<or> \<not> truthy sponsorSignature \<or> \<not> truthy senderSignature
                   then ([], NextResponse (ErrorResponse execute_required_message None) 400)
                   else
                     (case executeTransactionBlock w ShinamiNode txBytes
                             [senderSignature, sponsorSignature] of
                        Inl t \<Rightarrow>
                          ([ExecuteCall ShinamiNode txBytes [senderSignature, sponsorSignature]],
                           caught execute_failed_message t)
                      | Inr result \<Rightarrow>
                          ([ExecuteCall ShinamiNode txBytes [senderSignature, sponsorSignature]],
                           NextResponse (ExecuteSponsoredTxResponse result) 200)))))"

section \<open>\<^verbatim>\<open>buildGaslessTransaction\<close> of the gas station SDK\<close>

text \<open>
  The helper runs the callback on a fresh builder, builds the transaction kind with the
  given client, and returns a gasless transaction whose sender, budget and price are the
  (absent) options. The serialisation is the SDK's, a parameter of the world; a throw of
  the build is its \<open>Inl\<close>.
\<close>

definition buildGaslessTransaction :: "world \<Rightarrow> command list \<Rightarrow> thrown + gasless_transaction" where
  "buildGaslessTransaction w commands =
     (case buildTransactionKind w commands of
        Inl t \<Rightarrow> Inl t
      | Inr kind \<Rightarrow>
          Inr \<lparr>txKind = kind, gasless_sender = Undefined,
                gasBudget = Undefined, gasPrice = Undefined\<rparr>)"

text \<open>
  The tail both build routes share, word for word: build, set the sender, sponsor, and
  answer with the gas station's bytes, signature and digest.
\<close>

definition build_and_sponsor ::
  "world \<Rightarrow> string \<Rightarrow> event list \<Rightarrow> command list \<Rightarrow> jsval \<Rightarrow> event list \<times> http_response" where
  "build_and_sponsor w failed_message earlier commands sender =
     (case buildGaslessTransaction w commands of
        Inl t \<Rightarrow> (earlier @ [BuildGaslessCall commands], caught failed_message t)
      | Inr built \<Rightarrow>
          (let gaslessTx = built\<lparr>gasless_sender := sender\<rparr>
           in case sponsorTransaction w gaslessTx of
                Inl t \<Rightarrow>
                  (earlier @ [BuildGaslessCall commands, SponsorCall gaslessTx],
                   caught failed_message t)
              | Inr sponsoredResponse \<Rightarrow>
                  (earlier @ [BuildGaslessCall commands, SponsorCall gaslessTx],
                   NextResponse
                     (BuildSponsoredTxResponse
                        (sponsored_txBytes sponsoredResponse)
                        (sponsored_signature sponsoredResponse)
                        (sponsored_txDigest sponsoredResponse)) 200)))"

section \<open>\<^verbatim>\<open>app/api/buildSponsoredTx/route.ts\<close>\<close>

definition sender_required_message :: string where
  "sender_required_message = ''Sender address is required''"

definition package_not_configured_message :: string where
  "package_not_configured_message = ''Move package ID not configured''"

definition package_not_configured_details :: string where
  "package_not_configured_details =
     ''Set NEXT_PUBLIC_MOVE_PACKAGE_ID in your environment variables''"

definition build_failed_message :: string where
  "build_failed_message = ''Failed to build or sponsor transaction''"

text \<open>
  \<^verbatim>\<open>txb.pure.u64(v)\<close>: the SDK converts the value to an integer and encodes it when
  it lies between 0 and \<open>2^64 - 1\<close>; it throws on \<^verbatim>\<open>null\<close> and
  \<^verbatim>\<open>undefined\<close>, on a number that is negative, fractional or too large, and on
  whatever else the engine cannot convert.
\<close>

definition u64_max :: nat where
  "u64_max = 18446744073709551615"

fun pure_u64 :: "world \<Rightarrow> jsval \<Rightarrow> thrown + argument" where
  "pure_u64 w (Num n) =
     (if n = of_int \<lfloor>n\<rfloor> \<and> 0 \<le> n \<and> n \<le> of_nat u64_max
      then Inr (U64 (nat \<lfloor>n\<rfloor>))
      else Inl (u64_rejection w (Num n)))"
| "pure_u64 w Undefined = Inl (u64_rejection w Undefined)"
| "pure_u64 w Null = Inl (u64_rejection w Null)"
| "pure_u64 w v =
     (case u64_of_other w v of
        Inl t \<Rightarrow> Inl t
      | Inr n \<Rightarrow> if n \<le> u64_max then Inr (U64 n) else Inl (u64_rejection w v))"

text \<open>
  The callback handed to the builder. The two arguments are evaluated, in order, before
  \<^verbatim>\<open>txb.moveCall\<close> is entered, so a throw of \<^verbatim>\<open>txb.pure.u64\<close> leaves
  the builder without a command.
\<close>

definition math_commands :: "world \<Rightarrow> string \<Rightarrow> jsval \<Rightarrow> jsval \<Rightarrow> thrown + command list" where
  "math_commands w packageId num1 num2 =
     (if num1 \<noteq> Undefined \<and> num2 \<noteq> Undefined
      then (case pure_u64 w num1 of
              Inl t \<Rightarrow> Inl t
            | Inr a \<Rightarrow>
                (case pure_u64 w num2 of
                   Inl t \<Rightarrow> Inl t
                 | Inr b \<Rightarrow> Inr [MoveCall (packageId @ ''::math::add'') [a, b]]))
      else Inr [MoveCall (packageId @ ''::math::hello_world'') []])"

definition POST_build :: "world \<Rightarrow> request \<Rightarrow> event list \<times> http_response" where
  "POST_build w req =
     (case req of
        Inl t \<Rightarrow> ([], caught build_failed_message t)
      | Inr parsed \<Rightarrow>
          (case destructure parsed of
             Inl t \<Rightarrow> ([], caught build_failed_message t)
           | Inr member \<Rightarrow>
               (let sender = member ''sender'';
                    num1 = member ''num1'';
                    num2 = member ''num2''
                in if \<not> truthy sender
                   then ([], NextResponse (ErrorResponse sender_required_message None) 400)
                   else
                     (case NEXT_PUBLIC_MOVE_PACKAGE_ID w of
                        None \<Rightarrow>
                          ([], NextResponse
                                 (ErrorResponse package_not_configured_message
                                    (Some package_not_configured_details)) 500)
                      | Some packageId \<Rightarrow>
                          if packageId = []
                          then ([], NextResponse
                                      (ErrorResponse package_not_configured_message
                                         (Some package_not_configured_details)) 500)
                          else
                            (case math_commands w packageId num1 num2 of
                               Inl t \<Rightarrow> ([], caught build_failed_message t)
                             | Inr commands \<Rightarrow>
                                 build_and_sponsor w build_failed_message []
                                   commands sender)))))"

section \<open>The transfer route (\<^verbatim>\<open>api/buildTransferTx\<close>)\<close>

definition recipient_required_message :: string where
  "recipient_required_message = ''Recipient address is required''"

definition amount_message :: string where
  "amount_message = ''Amount must be greater than 0''"

definition no_coins_message :: string where
  "no_coins_message = ''Sender has no SUI coins to transfer''"

definition transfer_failed_message :: string where
  "transfer_failed_message = ''Failed to build or sponsor transfer transaction''"

definition SUI_coin_type :: string where
  "SUI_coin_type = ''0x2::sui::SUI''"

text \<open>
  \<^verbatim>\<open>amount <= 0\<close>. On a number it is the comparison; \<^verbatim>\<open>null\<close> counts as 0,
  a boolean as 0 or 1, \<^verbatim>\<open>undefined\<close> as NaN (every comparison with NaN is
  false); a string, array or object is first converted by the engine.
\<close>

fun le_zero :: "world \<Rightarrow> jsval \<Rightarrow> bool" where
  "le_zero w (Num n) = (n \<le> 0)"
| "le_zero w Undefined = False"
| "le_zero w Null = True"
| "le_zero w (Bool b) = (\<not> b)"
| "le_zero w v = (case ToNumber w v of None \<Rightarrow> False | Some n \<Rightarrow> n \<le> 0)"

text \<open>The callback: split the amount off the sender's coin, transfer the new coin.\<close>

definition transfer_commands :: "coin_struct \<Rightarrow> jsval \<Rightarrow> jsval \<Rightarrow> command list" where
  "transfer_commands senderCoin amount recipient =
     [SplitCoins (ObjectRef (coinObjectId senderCoin)) [Pure_u64 amount],
      TransferObjects [NestedResult 0 0] (Recipient recipient)]"

definition POST_transfer :: "world \<Rightarrow> request \<Rightarrow> event list \<times> http_response" where
  "POST_transfer w req =
     (case req of
        Inl t \<Rightarrow> ([], caught transfer_failed_message t)
      | Inr parsed \<Rightarrow>
          (case destructure parsed of
             Inl t \<Rightarrow> ([], caught transfer_failed_message t)
           | Inr member \<Rightarrow>
               (let sender = member ''sender'';
                    recipient = member ''recipient'';
                    amount = member ''amount''
                in if \<not> truthy sender
                   then ([], NextResponse (ErrorResponse sender_required_message None) 400)
                   else if \<not> truthy recipient
                   then ([], NextResponse (ErrorResponse recipient_required_message None) 400)
                   else if \<not> truthy amount \<or> le_zero w amount
                   then ([], NextResponse (ErrorResponse amount_message None) 400)
                   else
                     (case getCoins w sender SUI_coin_type of
                        Inl t \<Rightarrow>
                          ([GetCoinsCall sender SUI_coin_type], caught transfer_failed_message t)
                      | Inr coins \<Rightarrow>
                          (case coins_data coins of
                             None \<Rightarrow>
                               ([GetCoinsCall sender SUI_coin_type],
                                NextResponse (ErrorResponse no_coins_message None) 400)
                           | Some [] \<Rightarrow>
                               ([GetCoinsCall sender SUI_coin_type],
                                NextResponse (ErrorResponse no_coins_message None) 400)
                           | Some (senderCoin # others) \<Rightarrow>
                               build_and_sponsor w transfer_failed_message
                                 [GetCoinsCall sender SUI_coin_type]
                                 (transfer_commands senderCoin amount recipient) sender)))))"

section \<open>The browser side: transport and JSON\<close>

text \<open>
  \<^verbatim>\<open>NextResponse.json\<close> writes the body as a JSON object and
  \<^verbatim>\<open>response.json()\<close> reads it back; an absent member is not written.
\<close>

fun response_members :: "response_body \<Rightarrow> (string \<times> jsval) list" where
  "response_members (ErrorResponse e d) =
     (''error'', Str e) # (case d of None \<Rightarrow> [] | Some x \<Rightarrow> [(''details'', Str x)])"
| "response_members (BuildSponsoredTxResponse tb sg dg) =
     [(''txBytes'', Str tb), (''sponsorSignature'', Str sg), (''digest'', Str dg)]"
| "response_members (ExecuteSponsoredTxResponse r) =
     tx_rest r @ [(''digest'', Str (tx_digest r))]
       @ (if tx_effects r = Undefined then [] else [(''effects'', tx_effects r)])"

definition json_of :: "http_response \<Rightarrow> string \<Rightarrow> jsval" where
  "json_of r = field (response_members (body r))"

definition ok :: "http_response \<Rightarrow> bool" where
  "ok r = (200 \<le> status r \<and> status r \<le> 299)"

text \<open>
  \<^verbatim>\<open>fetch\<close> of one of this repository's routes with a JSON body, together with
  the reading of the response body by \<^verbatim>\<open>response.json()\<close>: the request does not
  reach the route; or the route runs on the parsed body and its response is lost on the
  way back (\<^verbatim>\<open>fetch\<close> rejects after the route has run, or reading the body
  rejects); or the response comes back.
\<close>

definition fetch ::
  "world \<Rightarrow> string \<Rightarrow> (world \<Rightarrow> request \<Rightarrow> event list \<times> http_response) \<Rightarrow> jsval
     \<Rightarrow> event list \<times> (thrown + http_response)" where
  "fetch w url route payload =
     (case fetch_rejects w url of
        Some t \<Rightarrow> ([], Inl t)
      | None \<Rightarrow>
          (case route w (Inr payload) of
             (evs, r) \<Rightarrow>
               (case response_lost w url of
                  Some t \<Rightarrow> (evs, Inl t)
                | None \<Rightarrow> (evs, Inr r))))"

text \<open>A value inside a template literal or as an \<^verbatim>\<open>Error\<close> message.\<close>

definition display :: "world \<Rightarrow> jsval \<Rightarrow> string" where
  "display w v = (case v of Str s \<Rightarrow> s | _ \<Rightarrow> String_of w v)"

text \<open>\<^verbatim>\<open>new Error(errorData.error || fallback)\<close>.\<close>

definition error_or :: "world \<Rightarrow> jsval \<Rightarrow> string \<Rightarrow> thrown" where
  "error_or w v fallback = Error (if truthy v then display w v else fallback)"

text \<open>A number in \<^verbatim>\<open>JSON.stringify\<close>: NaN is written as \<^verbatim>\<open>null\<close>.\<close>

fun json_number :: "int option \<Rightarrow> jsval" where
  "json_number None = Null"
| "json_number (Some n) = Num (of_int n)"

text \<open>The handlers' \<^verbatim>\<open>catch\<close>: the message shown to the user.\<close>

fun shown_message :: "thrown \<Rightarrow> string" where
  "shown_message (Error m) = m"
| "shown_message NonError = ''Unknown error occurred''"

section \<open>\<^verbatim>\<open>app/page.tsx\<close>\<close>

record home_state =
  currentAccount :: "string option"
  num1 :: string
  num2 :: string
  loading :: bool
  result :: string
  error :: string

definition connect_wallet_message :: string where
  "connect_wallet_message = ''Please connect your wallet first''"

definition build_fallback_message :: string where
  "build_fallback_message = ''Failed to build transaction''"

definition execute_fallback_message :: string where
  "execute_fallback_message = ''Failed to execute transaction''"

definition successful_message :: "string \<Rightarrow> string" where
  "successful_message digest = ''Transaction successful! Digest: '' @ digest"

text \<open>The \<^verbatim>\<open>try\<close> block of flow 1: \<open>Inr\<close> the text for \<^verbatim>\<open>setResult\<close>,
  \<open>Inl\<close> what was thrown.\<close>

definition frontend_submit_try :: "world \<Rightarrow> string \<Rightarrow> home_state \<Rightarrow> event list \<times> (thrown + string)" where
  "frontend_submit_try w address st =
     (let buildRequest =
            Obj [(''sender'', Str address),
                 (''num1'', json_number (parseInt w (num1 st))),
                 (''num2'', json_number (parseInt w (num2 st)))]
      in case fetch w ''/api/buildSponsoredTx'' POST_build buildRequest of
           (evs, Inl t) \<Rightarrow> (evs, Inl t)
         | (evs, Inr buildResponse) \<Rightarrow>
             if \<not> ok buildResponse
             then (evs, Inl (error_or w (json_of buildResponse ''error'') build_fallback_message))
             else
               (let sponsoredTx = json_of buildResponse
                in case signTransaction w (sponsoredTx ''txBytes'') of
                     Inl t \<Rightarrow> (evs @ [SignCall (sponsoredTx ''txBytes'')], Inl t)
                   | Inr senderSignature \<Rightarrow>
                       (case executeTransactionBlock w DappKitNode (sponsoredTx ''txBytes'')
                               [Str senderSignature, sponsoredTx ''sponsorSignature''] of
                          Inl t \<Rightarrow>
                            (evs @ [SignCall (sponsoredTx ''txBytes''),
                                    ExecuteCall DappKitNode (sponsoredTx ''txBytes'')
                                      [Str senderSignature, sponsoredTx ''sponsorSignature'']],
                             Inl t)
                        | Inr executeResult \<Rightarrow>
                            (evs @ [SignCall (sponsoredTx ''txBytes''),
                                    ExecuteCall DappKitNode (sponsoredTx ''txBytes'')
                                      [Str senderSignature, sponsoredTx ''sponsorSignature'']],
                             Inr (successful_message (tx_digest executeResult))))))"

text \<open>The \<^verbatim>\<open>try\<close> block of flow 2: the submission goes through the execute route.\<close>

definition backend_submit_try :: "world \<Rightarrow> string \<Rightarrow> home_state \<Rightarrow> event list \<times> (thrown + string)" where
  "backend_submit_try w address st =
     (let buildRequest =
            Obj [(''sender'', Str address),
                 (''num1'', json_number (parseInt w (num1 st))),
                 (''num2'', json_number (parseInt w (num2 st)))]
      in case fetch w ''/api/buildSponsoredTx'' POST_build buildRequest of
           (evs, Inl t) \<Rightarrow> (evs, Inl t)
         | (evs, Inr buildResponse) \<Rightarrow>
             if \<not> ok buildResponse
             then (evs, Inl (error_or w (json_of buildResponse ''error'') build_fallback_message))
             else
               (let sponsoredTx = json_of buildResponse
                in case signTransaction w (sponsoredTx ''txBytes'') of
                     Inl t \<Rightarrow> (evs @ [SignCall (sponsoredTx ''txBytes'')], Inl t)
                   | Inr senderSignature \<Rightarrow>
                       (case fetch w ''/api/executeSponsoredTx'' POST_execute
                               (Obj [(''txBytes'', sponsoredTx ''txBytes''),
                                     (''sponsorSignature'', sponsoredTx ''sponsorSignature''),
                                     (''senderSignature'', Str senderSignature)]) of
                          (evs', Inl t) \<Rightarrow>
                            (evs @ [SignCall (sponsoredTx ''txBytes'')] @ evs', Inl t)
                        | (evs', Inr executeResponse) \<Rightarrow>
                            if \<not> ok executeResponse
                            then (evs @ [SignCall (sponsoredTx ''txBytes'')] @ evs',
                                  Inl (error_or w (json_of executeResponse ''error'')
                                         execute_fallback_message))
                            else (evs @ [SignCall (sponsoredTx ''txBytes'')] @ evs',
                                  Inr (successful_message
                                         (display w (json_of executeResponse ''digest'')))))))"

text \<open>
  Around the \<^verbatim>\<open>try\<close>: the wallet guard, the three resets, then
  \<^verbatim>\<open>setResult\<close> or \<^verbatim>\<open>setError\<close>, and \<^verbatim>\<open>setLoading(false)\<close> in
  \<^verbatim>\<open>finally\<close>.
\<close>

definition run_handler ::
  "(string \<Rightarrow> home_state \<Rightarrow> event list \<times> (thrown + string)) \<Rightarrow> home_state
     \<Rightarrow> event list \<times> home_state" where
  "run_handler try_block st =
     (case currentAccount st of
        None \<Rightarrow> ([], st\<lparr>error := connect_wallet_message\<rparr>)
      | Some address \<Rightarrow>
          (let st' = st\<lparr>loading := True, error := [], result := []\<rparr>
           in case try_block address st' of
                (evs, Inl t) \<Rightarrow> (evs, st'\<lparr>error := shown_message t, loading := False\<rparr>)
              | (evs, Inr text) \<Rightarrow> (evs, st'\<lparr>result := text, loading := False\<rparr>)))"

definition handleFrontendSubmit :: "world \<Rightarrow> home_state \<Rightarrow> event list \<times> home_state" where
  "handleFrontendSubmit w st = run_handler (frontend_submit_try w) st"

definition handleBackendSubmit :: "world \<Rightarrow> home_state \<Rightarrow> event list \<times> home_state" where
  "handleBackendSubmit w st = run_handler (backend_submit_try w) st"

section \<open>The transfer form (\<^verbatim>\<open>components/TransferForm.tsx\<close>)\<close>

record transfer_state =
  recipient :: string
  amount :: string
  transfer_loading :: bool
  transfer_result :: string
  transfer_error :: string

definition enter_recipient_message :: string where
  "enter_recipient_message = ''Please enter a recipient address''"

definition valid_amount_message :: string where
  "valid_amount_message = ''Please enter a valid amount''"

definition transfer_fallback_message :: string where
  "transfer_fallback_message = ''Failed to build transfer''"

text \<open>\<^verbatim>\<open>String.prototype.trim\<close> on the ASCII white space.\<close>

definition is_space :: "char \<Rightarrow> bool" where
  "is_space c = (c \<in> set [CHR '' '', CHR 0x09, CHR 0x0A, CHR 0x0B, CHR 0x0C, CHR 0x0D])"

definition trim :: "string \<Rightarrow> string" where
  "trim s = rev (dropWhile is_space (rev (dropWhile is_space s)))"

definition transfer_successful_message :: "world \<Rightarrow> rat \<Rightarrow> string \<Rightarrow> string \<Rightarrow> string" where
  "transfer_successful_message w amountNum to digest =
     ''Transfer successful! '' @ display w (Num amountNum) @ '' SUI sent to ''
       @ take 10 to @ ''...'' @ drop (length to - 8) to @ [CHR 0x0A]
       @ ''Transaction digest: '' @ digest"

definition transfer_try ::
  "world \<Rightarrow> string \<Rightarrow> rat \<Rightarrow> transfer_state \<Rightarrow> event list \<times> (thrown + string)" where
  "transfer_try w senderAddress amountNum st =
     (let amountInMist = \<lfloor>amountNum * 1000000000\<rfloor>;
          payload =
            Obj [(''sender'', Str senderAddress),
                 (''recipient'', Str (trim (recipient st))),
                 (''amount'', Num (of_int amountInMist))]
      in case fetch w ''/api/buildTransferTx'' POST_transfer payload of
           (evs, Inl t) \<Rightarrow> (evs, Inl t)
         | (evs, Inr buildResponse) \<Rightarrow>
             if \<not> ok buildResponse
             then (evs, Inl (error_or w (json_of buildResponse ''error'') transfer_fallback_message))
             else
               (let sponsoredTx = json_of buildResponse
                in case signTransaction w (sponsoredTx ''txBytes'') of
                     Inl t \<Rightarrow> (evs @ [SignCall (sponsoredTx ''txBytes'')], Inl t)
                   | Inr senderSignature \<Rightarrow>
                       (case executeTransactionBlock w DappKitNode (sponsoredTx ''txBytes'')
                               [Str senderSignature, sponsoredTx ''sponsorSignature''] of
                          Inl t \<Rightarrow>
                            (evs @ [SignCall (sponsoredTx ''txBytes''),
                                    ExecuteCall DappKitNode (sponsoredTx ''txBytes'')
                                      [Str senderSignature, sponsoredTx ''sponsorSignature'']],
                             Inl t)
                        | Inr executeResult \<Rightarrow>
                            (evs @ [SignCall (sponsoredTx ''txBytes''),
                                    ExecuteCall DappKitNode (sponsoredTx ''txBytes'')
                                      [Str senderSignature, sponsoredTx ''sponsorSignature'']],
                             Inr (transfer_successful_message w amountNum (recipient st)
                                    (tx_digest executeResult))))))"

definition handleTransfer :: "world \<Rightarrow> string \<Rightarrow> transfer_state \<Rightarrow> event list \<times> transfer_state" where
  "handleTransfer w senderAddress st =
     (if recipient st = []
      then ([], st\<lparr>transfer_error := enter_recipient_message\<rparr>)
      else
        (case parseFloat w (amount st) of
           None \<Rightarrow> ([], st\<lparr>transfer_error := valid_amount_message\<rparr>)
         | Some amountNum \<Rightarrow>
             if amountNum \<le> 0
             then ([], st\<lparr>transfer_error := valid_amount_message\<rparr>)
             else
               (let st' = st\<lparr>transfer_loading := True, transfer_error := [],
                              transfer_result := []\<rparr>
                in case transfer_try w senderAddress amountNum st' of
                     (evs, Inl t) \<Rightarrow>
                       (evs, st'\<lparr>transfer_error := shown_message t,
                                   transfer_loading := False\<rparr>)
                   | (evs, Inr text) \<Rightarrow>
                       (evs, st'\<lparr>transfer_result := text, recipient := [],
                                   amount := ''0.1'', transfer_loading := False\<rparr>))))"

section \<open>Reading a trace\<close>

text \<open>The payloads handed to the gas station, to the wallet and to the ledger, in order.\<close>

fun sponsorings :: "event list \<Rightarrow> gasless_transaction list" where
  "sponsorings [] = []"
| "sponsorings (SponsorCall g # evs) = g # sponsorings evs"
| "sponsorings (e # evs) = sponsorings evs"

fun signings :: "event list \<Rightarrow> jsval list" where
  "signings [] = []"
| "signings (SignCall b # evs) = b # signings evs"
| "signings (e # evs) = signings evs"

fun submissions :: "event list \<Rightarrow> (jsval \<times> jsval list) list" where
  "submissions [] = []"
| "submissions (ExecuteCall c b sigs # evs) = (b, sigs) # submissions evs"
| "submissions (e # evs) = submissions evs"

section \<open>A concrete world\<close>

text \<open>
  A world in which every collaborator answers: the package id is configured, the sender
  owns one coin of 5 MIST, the gas station returns the bytes \<open>TX\<close> whatever it is sent,
  the wallet signs and the ledger accepts.
\<close>

definition ex_world :: world where
  "ex_world =
     \<lparr>NEXT_PUBLIC_MOVE_PACKAGE_ID = Some ''0xPKG'',
      buildTransactionKind = (\<lambda>commands. Inr ''KIND''),
      sponsorTransaction =
        (\<lambda>g. Inr \<lparr>sponsored_txBytes = ''TX'', sponsored_signature = ''SPONSOR_SIG'',
                     sponsored_txDigest = ''DIGEST''\<rparr>),
      getCoins = (\<lambda>owner coinType. Inr \<lparr>coins_data = Some [\<lparr>coinObjectId = ''0xC'', coin_balance = 5\<rparr>]\<rparr>),
      executeTransactionBlock =
        (\<lambda>c b sigs. Inr \<lparr>tx_digest = ''DIGEST'', tx_effects = Null, tx_rest = []\<rparr>),
      signTransaction = (\<lambda>b. Inr ''USER_SIG''),
      fetch_rejects = (\<lambda>url. None),
      response_lost = (\<lambda>url. None),
      u64_rejection = (\<lambda>v. Error ''Invalid u64 value''),
      u64_of_other = (\<lambda>v. Inl (Error ''Cannot convert to a BigInt'')),
      parseInt = (\<lambda>s. if s = ''10'' then Some 10 else if s = ''20'' then Some 20 else None),
      parseFloat = (\<lambda>s. if s = ''0.1'' then Some (1 / 10) else None),
      ToNumber = (\<lambda>v. None),
      String_of = (\<lambda>v. ''?'')\<rparr>"

text \<open>The same world with a sender who owns no coin.\<close>

definition ex_world_no_coins :: world where
  "ex_world_no_coins = ex_world\<lparr>getCoins := (\<lambda>owner coinType. Inr \<lparr>coins_data = Some []\<rparr>)\<rparr>"

definition ex_home :: home_state where
  "ex_home =
     \<lparr>currentAccount = Some ''0xA'', num1 = ''10'', num2 = ''20'',
      loading = False, result = [], error = []\<rparr>"

definition ex_transfer :: transfer_state where
  "ex_transfer =
     \<lparr>recipient = ''0xB'', amount = ''0.1'', transfer_loading = False,
      transfer_result = [], transfer_error = []\<rparr>"

text \<open>The page with an empty first number field.\<close>

definition ex_home_empty_field :: home_state where
  "ex_home_empty_field = ex_home\<lparr>num1 := []\<rparr>"

section \<open>Examples of what the opaque strings may stand for\<close>

text \<open>
  The routes treat transaction bytes and signatures as opaque strings and never decode
  them. To speak about a payload's content, its fee ceiling or a signature's signer, the
  examples below fix one reading of the strings of \<^const>\<open>ex_world\<close>: the bytes
  \<open>TX\<close> hold a transaction of kind \<open>OTHER_KIND\<close> sent by \<open>0xEVIL\<close> with a gas
  budget of 50; \<open>USER_SIG\<close> is the wallet's signature and \<open>SPONSOR_SIG\<close> the gas
  station's.
\<close>

definition ex_non_fee_portion :: "string \<Rightarrow> string \<times> jsval" where
  "ex_non_fee_portion txBytes =
     (if txBytes = ''TX'' then (''OTHER_KIND'', Str ''0xEVIL'') else ([], Undefined))"

definition ex_fee_ceiling :: "string \<Rightarrow> nat" where
  "ex_fee_ceiling txBytes = (if txBytes = ''TX'' then 50 else 0)"



section \<open>One operation per run\<close>

text \<open>
  The shape every browser flow has. Either the wallet and the ledger were not called, and
  then the gas station, if it was asked at all, did not answer or its answer did not reach
  the browser; or the gas station answered once, the wallet was asked once to sign the
  bytes of that answer, and the ledger received at most one submission, of the same bytes
  with the wallet's signature before the gas station's.
\<close>

abbreviation (input) single_operation :: "world \<Rightarrow> string \<Rightarrow> event list \<Rightarrow> bool" where
  "single_operation w url evs \<equiv>
     (signings evs = [] \<and> submissions evs = []
        \<and> (\<forall>g \<in> set (sponsorings evs). \<forall>sp.
              sponsorTransaction w g = Inr sp \<longrightarrow> response_lost w url \<noteq> None))
     \<or> (\<exists>g sp. sponsorings evs = [g] \<and> sponsorTransaction w g = Inr sp
           \<and> signings evs = [Str (sponsored_txBytes sp)]
           \<and> (case signTransaction w (Str (sponsored_txBytes sp)) of
                Inl t \<Rightarrow> submissions evs = []
              | Inr senderSignature \<Rightarrow>
                  submissions evs = []
                  \<or> submissions evs
                      = [(Str (sponsored_txBytes sp),
                          [Str senderSignature, Str (sponsored_signature sp)])]))"

section \<open>The shared tail of the build routes\<close>

lemma build_and_sponsor_trace:
  "fst (build_and_sponsor w m earlier commands s) =
     earlier @ BuildGaslessCall commands #
       (case buildTransactionKind w commands of
          Inl t \<Rightarrow> []
        | Inr kind \<Rightarrow>
            [SponsorCall \<lparr>txKind = kind, gasless_sender = s,
                          gasBudget = Undefined, gasPrice = Undefined\<rparr>])"
  by (simp add: build_and_sponsor_def buildGaslessTransaction_def Let_def split: sum.splits)

lemma build_and_sponsor_response:
  "snd (build_and_sponsor w m earlier commands s) =
     (case buildTransactionKind w commands of
        Inl t \<Rightarrow> caught m t
      | Inr kind \<Rightarrow>
          (case sponsorTransaction w \<lparr>txKind = kind, gasless_sender = s,
                                      gasBudget = Undefined, gasPrice = Undefined\<rparr> of
             Inl t \<Rightarrow> caught m t
           | Inr sp \<Rightarrow>
               NextResponse
                 (BuildSponsoredTxResponse (sponsored_txBytes sp) (sponsored_signature sp)
                    (sponsored_txDigest sp)) 200))"
  by (simp add: build_and_sponsor_def buildGaslessTransaction_def Let_def split: sum.splits)

section \<open>The execute route refuses incomplete requests\<close>

text \<open>
  Claim C10. On a request whose body is a JSON object, the execute route answers with
  status 400 and calls nothing when \<open>txBytes\<close>, \<open>sponsorSignature\<close> or
  \<open>senderSignature\<close> is absent or the empty string; and whenever the route does call
  the ledger, the request was an object in which all three members are present and
  non-empty. (A body that is not JSON, or is \<^verbatim>\<open>null\<close>, ends in the
  \<^verbatim>\<open>catch\<close> block with status 500, also without a ledger call.)
\<close>

theorem execute_requires_all_three:
  "((field kvs ''txBytes'' \<in> {Undefined, Str []}
      \<or> field kvs ''sponsorSignature'' \<in> {Undefined, Str []}
      \<or> field kvs ''senderSignature'' \<in> {Undefined, Str []})
     \<longrightarrow> POST_execute w (Inr (Obj kvs))
           = ([], NextResponse (ErrorResponse execute_required_message None) 400))
   \<and> (ExecuteCall c b sigs \<in> set (fst (POST_execute w req))
     \<longrightarrow> (\<exists>kvs'. req = Inr (Obj kvs')
            \<and> (\<forall>k \<in> {''txBytes'', ''sponsorSignature'', ''senderSignature''}.
                  field kvs' k \<noteq> Undefined \<and> field kvs' k \<noteq> Str [])))"
proof (intro conjI impI)
  assume "field kvs ''txBytes'' \<in> {Undefined, Str []}
      \<or> field kvs ''sponsorSignature'' \<in> {Undefined, Str []}
      \<or> field kvs ''senderSignature'' \<in> {Undefined, Str []}"
  then show "POST_execute w (Inr (Obj kvs))
           = ([], NextResponse (ErrorResponse execute_required_message None) 400)"
    by (auto simp: POST_execute_def Let_def)
next
  assume call: "ExecuteCall c b sigs \<in> set (fst (POST_execute w req))"
  show "\<exists>kvs'. req = Inr (Obj kvs')
            \<and> (\<forall>k \<in> {''txBytes'', ''sponsorSignature'', ''senderSignature''}.
                  field kvs' k \<noteq> Undefined \<and> field kvs' k \<noteq> Str [])"
  proof (cases req)
    case (Inl t)
    with call show ?thesis by (simp add: POST_execute_def)
  next
    case (Inr parsed)
    with call show ?thesis
      by (cases parsed) (auto simp: POST_execute_def Let_def split: if_splits sum.splits)
  qed
qed

theorem execute_requires_all_three_witness:
  "field [(''txBytes'', Str ''TX''), (''senderSignature'', Str ''USER_SIG'')] ''sponsorSignature''
     \<in> {Undefined, Str []}
   \<and> POST_execute ex_world
       (Inr (Obj [(''txBytes'', Str ''TX''), (''senderSignature'', Str ''USER_SIG'')]))
     = ([], NextResponse (ErrorResponse execute_required_message None) 400)
   \<and> ExecuteCall ShinamiNode (Str ''TX'') [Str ''USER_SIG'', Str ''SPONSOR_SIG'']
     \<in> set (fst (POST_execute ex_world
          (Inr (Obj [(''txBytes'', Str ''TX''), (''sponsorSignature'', Str ''SPONSOR_SIG''),
                     (''senderSignature'', Str ''USER_SIG'')]))))
   \<and> (\<exists>kvs'. (Inr (Obj [(''txBytes'', Str ''TX''), (''sponsorSignature'', Str ''SPONSOR_SIG''),
                     (''senderSignature'', Str ''USER_SIG'')]) :: request) = Inr (Obj kvs')
            \<and> (\<forall>k \<in> {''txBytes'', ''sponsorSignature'', ''senderSignature''}.
                  field kvs' k \<noteq> Undefined \<and> field kvs' k \<noteq> Str []))"
proof -
  have missing: "field [(''txBytes'', Str ''TX''), (''senderSignature'', Str ''USER_SIG'')] ''sponsorSignature''
     \<in> {Undefined, Str []}"
    by (simp add: field_def)
  have issued: "ExecuteCall ShinamiNode (Str ''TX'') [Str ''USER_SIG'', Str ''SPONSOR_SIG'']
     \<in> set (fst (POST_execute ex_world
          (Inr (Obj [(''txBytes'', Str ''TX''), (''sponsorSignature'', Str ''SPONSOR_SIG''),
                     (''senderSignature'', Str ''USER_SIG'')]))))"
    by (simp add: POST_execute_def field_def ex_world_def)
  from missing issued
    execute_requires_all_three
      [of "[(''txBytes'', Str ''TX''), (''senderSignature'', Str ''USER_SIG'')]" ex_world
          ShinamiNode "Str ''TX''" "[Str ''USER_SIG'', Str ''SPONSOR_SIG'']"
          "Inr (Obj [(''txBytes'', Str ''TX''), (''sponsorSignature'', Str ''SPONSOR_SIG''),
                     (''senderSignature'', Str ''USER_SIG'')])"]
  show ?thesis by blast
qed

section \<open>A sender without coins\<close>

text \<open>
  Claim C5. When the owned-coin query for the sender returns no coin (an empty list, or
  no list at all), the transfer route hands nothing to the gas station and answers with
  status 400; for a request that passed the three input checks, the only call made is the
  coin query and the answer is the no-coins error.
\<close>

theorem no_coins_no_sponsorship:
  assumes "getCoins w (field kvs ''sender'') SUI_coin_type = Inr coins"
      and "coins_data coins = None \<or> coins_data coins = Some []"
  shows "sponsorings (fst (POST_transfer w (Inr (Obj kvs)))) = []
     \<and> status (snd (POST_transfer w (Inr (Obj kvs)))) = 400
     \<and> (truthy (field kvs ''sender'') \<and> truthy (field kvs ''recipient'')
          \<and> truthy (field kvs ''amount'') \<and> \<not> le_zero w (field kvs ''amount'')
        \<longrightarrow> POST_transfer w (Inr (Obj kvs))
              = ([GetCoinsCall (field kvs ''sender'') SUI_coin_type],
                 NextResponse (ErrorResponse no_coins_message None) 400))"
  using assms by (auto simp: POST_transfer_def Let_def)

theorem no_coins_no_sponsorship_witness:
  "getCoins ex_world_no_coins
       (field [(''sender'', Str ''0xA''), (''recipient'', Str ''0xB''), (''amount'', Num 100)] ''sender'')
       SUI_coin_type = Inr \<lparr>coins_data = Some []\<rparr>
   \<and> POST_transfer ex_world_no_coins
       (Inr (Obj [(''sender'', Str ''0xA''), (''recipient'', Str ''0xB''), (''amount'', Num 100)]))
     = ([GetCoinsCall (Str ''0xA'') SUI_coin_type],
        NextResponse (ErrorResponse no_coins_message None) 400)"
proof -
  have owned: "getCoins ex_world_no_coins
       (field [(''sender'', Str ''0xA''), (''recipient'', Str ''0xB''), (''amount'', Num 100)] ''sender'')
       SUI_coin_type = Inr \<lparr>coins_data = Some []\<rparr>"
    by (simp add: ex_world_no_coins_def ex_world_def)
  from no_coins_no_sponsorship [OF owned] owned
  show ?thesis by (simp add: field_def)
qed

section \<open>What the build routes do with the gas station's answer\<close>

text \<open>
  Claim C1, as stated: a sponsored payload whose non-fee portion differs from the unbound
  payload is rejected and never returned. It fails: in \<^const>\<open>ex_world\<close> the gas
  station answers with the bytes \<open>TX\<close>, whose non-fee portion (kind \<open>OTHER_KIND\<close>,
  sender \<open>0xEVIL\<close>) is not the payload the route built for \<open>0xA\<close>, and the route
  answers 200 with these bytes. The route compares nothing: a request of the sender
  \<open>0xB\<close> is answered with the very same bytes, so under any other reading of the
  bytes one of the two answers differs from the payload that was sent.
\<close>

theorem tampered_payload_counterexample:
  "POST_build ex_world (Inr (Obj [(''sender'', Str ''0xA'')]))
     = ([BuildGaslessCall [MoveCall ''0xPKG::math::hello_world'' []],
         SponsorCall \<lparr>txKind = ''KIND'', gasless_sender = Str ''0xA'',
                      gasBudget = Undefined, gasPrice = Undefined\<rparr>],
        NextResponse (BuildSponsoredTxResponse ''TX'' ''SPONSOR_SIG'' ''DIGEST'') 200)
   \<and> ex_non_fee_portion ''TX'' \<noteq> (''KIND'', Str ''0xA'')
   \<and> POST_build ex_world (Inr (Obj [(''sender'', Str ''0xB'')]))
     = ([BuildGaslessCall [MoveCall ''0xPKG::math::hello_world'' []],
         SponsorCall \<lparr>txKind = ''KIND'', gasless_sender = Str ''0xB'',
                      gasBudget = Undefined, gasPrice = Undefined\<rparr>],
        NextResponse (BuildSponsoredTxResponse ''TX'' ''SPONSOR_SIG'' ''DIGEST'') 200)"
  by (simp add: POST_build_def field_def ex_world_def math_commands_def build_and_sponsor_def
        buildGaslessTransaction_def ex_non_fee_portion_def)

text \<open>
  Claim C1, amended: whenever the gas station answers a sponsorship request of either
  build route, the route responds with status 200 and exactly the bytes, the signature
  and the digest of that answer; the answer is not compared with the payload that was
  sent.
\<close>

theorem sponsored_response_passed_on:
  "(g \<in> set (sponsorings (fst (POST_build w req))) \<and> sponsorTransaction w g = Inr sp
      \<longrightarrow> snd (POST_build w req)
            = NextResponse (BuildSponsoredTxResponse (sponsored_txBytes sp)
                (sponsored_signature sp) (sponsored_txDigest sp)) 200)
   \<and> (g \<in> set (sponsorings (fst (POST_transfer w req))) \<and> sponsorTransaction w g = Inr sp
      \<longrightarrow> snd (POST_transfer w req)
            = NextResponse (BuildSponsoredTxResponse (sponsored_txBytes sp)
                (sponsored_signature sp) (sponsored_txDigest sp)) 200)"
proof (intro conjI impI)
  assume "g \<in> set (sponsorings (fst (POST_build w req))) \<and> sponsorTransaction w g = Inr sp"
  then show "snd (POST_build w req)
            = NextResponse (BuildSponsoredTxResponse (sponsored_txBytes sp)
                (sponsored_signature sp) (sponsored_txDigest sp)) 200"
    by (auto simp: POST_build_def Let_def build_and_sponsor_trace build_and_sponsor_response
          split: sum.splits option.splits if_splits)
next
  assume "g \<in> set (sponsorings (fst (POST_transfer w req))) \<and> sponsorTransaction w g = Inr sp"
  then show "snd (POST_transfer w req)
            = NextResponse (BuildSponsoredTxResponse (sponsored_txBytes sp)
                (sponsored_signature sp) (sponsored_txDigest sp)) 200"
    by (auto simp: POST_transfer_def Let_def build_and_sponsor_trace build_and_sponsor_response
          split: sum.splits option.splits if_splits list.splits)
qed

theorem sponsored_response_passed_on_witness:
  "\<lparr>txKind = ''KIND'', gasless_sender = Str ''0xA'', gasBudget = Undefined, gasPrice = Undefined\<rparr>
     \<in> set (sponsorings (fst (POST_build ex_world
          (Inr (Obj [(''sender'', Str ''0xA''), (''recipient'', Str ''0xB''), (''amount'', Num 100)])))))
   \<and> \<lparr>txKind = ''KIND'', gasless_sender = Str ''0xA'', gasBudget = Undefined, gasPrice = Undefined\<rparr>
     \<in> set (sponsorings (fst (POST_transfer ex_world
          (Inr (Obj [(''sender'', Str ''0xA''), (''recipient'', Str ''0xB''), (''amount'', Num 100)])))))
   \<and> snd (POST_build ex_world
          (Inr (Obj [(''sender'', Str ''0xA''), (''recipient'', Str ''0xB''), (''amount'', Num 100)])))
       = NextResponse (BuildSponsoredTxResponse ''TX'' ''SPONSOR_SIG'' ''DIGEST'') 200
   \<and> snd (POST_transfer ex_world
          (Inr (Obj [(''sender'', Str ''0xA''), (''recipient'', Str ''0xB''), (''amount'', Num 100)])))
       = NextResponse (BuildSponsoredTxResponse ''TX'' ''SPONSOR_SIG'' ''DIGEST'') 200"
proof -
  let ?g = "\<lparr>txKind = ''KIND'', gasless_sender = Str ''0xA'', gasBudget = Undefined,
              gasPrice = Undefined\<rparr>"
  let ?req = "Inr (Obj [(''sender'', Str ''0xA''), (''recipient'', Str ''0xB''),
                        (''amount'', Num 100)]) :: request"
  let ?sp = "\<lparr>sponsored_txBytes = ''TX'', sponsored_signature = ''SPONSOR_SIG'',
               sponsored_txDigest = ''DIGEST''\<rparr>"
  have b: "?g \<in> set (sponsorings (fst (POST_build ex_world ?req)))"
    by (simp add: POST_build_def Let_def field_def ex_world_def math_commands_def
          build_and_sponsor_trace)
  have t: "?g \<in> set (sponsorings (fst (POST_transfer ex_world ?req)))"
    by (simp add: POST_transfer_def Let_def field_def ex_world_def transfer_commands_def
          build_and_sponsor_trace)
  have s: "sponsorTransaction ex_world ?g = Inr ?sp"
    by (simp add: ex_world_def)
  from b t s sponsored_response_passed_on [of ?g ex_world ?req ?sp]
  show ?thesis by simp
qed

section \<open>Fee ceilings\<close>

text \<open>
  Claim C3, as stated: a ceiling given by the caller is embedded in the sponsorship
  request, and a returned binding above it is rejected. It fails: the caller asks for a
  budget of at most 10, the request sent to the gas station carries no budget, the gas
  station binds a budget of 50, and the route answers 200 with that binding.
\<close>

theorem fee_ceiling_counterexample:
  "POST_build ex_world (Inr (Obj [(''sender'', Str ''0xA''), (''gasBudget'', Num 10)]))
     = ([BuildGaslessCall [MoveCall ''0xPKG::math::hello_world'' []],
         SponsorCall \<lparr>txKind = ''KIND'', gasless_sender = Str ''0xA'',
                      gasBudget = Undefined, gasPrice = Undefined\<rparr>],
        NextResponse (BuildSponsoredTxResponse ''TX'' ''SPONSOR_SIG'' ''DIGEST'') 200)
   \<and> ex_fee_ceiling ''TX'' = 50 \<and> (10::nat) < ex_fee_ceiling ''TX''"
  by (simp add: POST_build_def Let_def field_def ex_world_def math_commands_def
        build_and_sponsor_def buildGaslessTransaction_def ex_fee_ceiling_def)

text \<open>
  Claim C3, amended: the build routes use the gas station's own budgeting. Every
  sponsorship request leaves \<open>gasBudget\<close> and \<open>gasPrice\<close> unset, and the
  build-and-sponsor route reads only \<open>sender\<close>, \<open>num1\<close> and \<open>num2\<close> of the body: two
  bodies that agree on these three get the same calls and the same response, whatever
  else (a ceiling, say) they contain.
\<close>

theorem no_fee_ceiling_in_sponsorship:
  "(g \<in> set (sponsorings (fst (POST_build w req)))
      \<longrightarrow> gasBudget g = Undefined \<and> gasPrice g = Undefined)
   \<and> (g \<in> set (sponsorings (fst (POST_transfer w req)))
      \<longrightarrow> gasBudget g = Undefined \<and> gasPrice g = Undefined)
   \<and> (field kvs ''sender'' = field kvs' ''sender'' \<and> field kvs ''num1'' = field kvs' ''num1''
        \<and> field kvs ''num2'' = field kvs' ''num2''
      \<longrightarrow> POST_build w (Inr (Obj kvs)) = POST_build w (Inr (Obj kvs')))"
proof -
  have build: "gasBudget g = Undefined \<and> gasPrice g = Undefined"
    if "g \<in> set (sponsorings (fst (POST_build w req)))"
    using that
    by (auto simp: POST_build_def Let_def build_and_sponsor_trace
          split: sum.splits option.splits if_splits)
  have transfer: "gasBudget g = Undefined \<and> gasPrice g = Undefined"
    if "g \<in> set (sponsorings (fst (POST_transfer w req)))"
    using that
    by (auto simp: POST_transfer_def Let_def build_and_sponsor_trace
          split: sum.splits option.splits if_splits list.splits)
  have ignored: "POST_build w (Inr (Obj kvs)) = POST_build w (Inr (Obj kvs'))"
    if "field kvs ''sender'' = field kvs' ''sender'' \<and> field kvs ''num1'' = field kvs' ''num1''
        \<and> field kvs ''num2'' = field kvs' ''num2''"
    using that by (simp add: POST_build_def)
  from build transfer ignored show ?thesis by blast
qed

theorem no_fee_ceiling_in_sponsorship_witness:
  "\<lparr>txKind = ''KIND'', gasless_sender = Str ''0xA'', gasBudget = Undefined, gasPrice = Undefined\<rparr>
     \<in> set (sponsorings (fst (POST_build ex_world
          (Inr (Obj [(''sender'', Str ''0xA''), (''recipient'', Str ''0xB''), (''amount'', Num 100)])))))
   \<and> \<lparr>txKind = ''KIND'', gasless_sender = Str ''0xA'', gasBudget = Undefined, gasPrice = Undefined\<rparr>
     \<in> set (sponsorings (fst (POST_transfer ex_world
          (Inr (Obj [(''sender'', Str ''0xA''), (''recipient'', Str ''0xB''), (''amount'', Num 100)])))))
   \<and> POST_build ex_world (Inr (Obj [(''sender'', Str ''0xA''), (''gasBudget'', Num 10)]))
     = POST_build ex_world (Inr (Obj [(''sender'', Str ''0xA'')]))"
proof -
  let ?g = "\<lparr>txKind = ''KIND'', gasless_sender = Str ''0xA'', gasBudget = Undefined,
              gasPrice = Undefined\<rparr>"
  let ?req = "Inr (Obj [(''sender'', Str ''0xA''), (''recipient'', Str ''0xB''),
                        (''amount'', Num 100)]) :: request"
  have b: "?g \<in> set (sponsorings (fst (POST_build ex_world ?req)))"
    by (simp add: POST_build_def Let_def field_def ex_world_def math_commands_def
          build_and_sponsor_trace)
  have t: "?g \<in> set (sponsorings (fst (POST_transfer ex_world ?req)))"
    by (simp add: POST_transfer_def Let_def field_def ex_world_def transfer_commands_def
          build_and_sponsor_trace)
  have same: "field [(''sender'', Str ''0xA''), (''gasBudget'', Num 10)] ''sender''
                = field [(''sender'', Str ''0xA'')] ''sender''
      \<and> field [(''sender'', Str ''0xA''), (''gasBudget'', Num 10)] ''num1''
                = field [(''sender'', Str ''0xA'')] ''num1''
      \<and> field [(''sender'', Str ''0xA''), (''gasBudget'', Num 10)] ''num2''
                = field [(''sender'', Str ''0xA'')] ''num2''"
    by (simp add: field_def)
  from b t same
    no_fee_ceiling_in_sponsorship
      [of ?g ex_world ?req "[(''sender'', Str ''0xA''), (''gasBudget'', Num 10)]"
          "[(''sender'', Str ''0xA'')]"]
  show ?thesis by blast
qed

section \<open>What the execute route checks\<close>




section \<open>The balance of the sender's coin\<close>

text \<open>
  Claim C6, as stated: when the located coin holds less than the requested amount, the
  build step fails instead of building and sponsoring. It fails: the sender's only coin
  holds 5, the request moves 100, and the route builds the split, has it sponsored and
  answers 200.
\<close>

theorem insufficient_balance_counterexample:
  "getCoins ex_world (Str ''0xA'') SUI_coin_type
     = Inr \<lparr>coins_data = Some [\<lparr>coinObjectId = ''0xC'', coin_balance = 5\<rparr>]\<rparr>
   \<and> (5::nat) < 100
   \<and> POST_transfer ex_world
       (Inr (Obj [(''sender'', Str ''0xA''), (''recipient'', Str ''0xB''), (''amount'', Num 100)]))
     = ([GetCoinsCall (Str ''0xA'') SUI_coin_type,
         BuildGaslessCall
           [SplitCoins (ObjectRef ''0xC'') [Pure_u64 (Num 100)],
            TransferObjects [NestedResult 0 0] (Recipient (Str ''0xB''))],
         SponsorCall \<lparr>txKind = ''KIND'', gasless_sender = Str ''0xA'',
                      gasBudget = Undefined, gasPrice = Undefined\<rparr>],
        NextResponse (BuildSponsoredTxResponse ''TX'' ''SPONSOR_SIG'' ''DIGEST'') 200)"
  by (simp add: POST_transfer_def Let_def field_def ex_world_def transfer_commands_def
        build_and_sponsor_def buildGaslessTransaction_def)

text \<open>
  Claim C6, amended: for a request that passes the input checks and a sender who owns at
  least one coin, the transfer route takes the first coin, whatever its balance, builds
  the split and the transfer from its id, and goes on to sponsorship if the build
  succeeds; it never answers 400 here.
\<close>

theorem first_coin_used_whatever_its_balance:
  assumes "truthy (field kvs ''sender'')"
      and "truthy (field kvs ''recipient'')"
      and "truthy (field kvs ''amount'')"
      and "\<not> le_zero w (field kvs ''amount'')"
      and "getCoins w (field kvs ''sender'') SUI_coin_type = Inr coins"
      and "coins_data coins = Some (senderCoin # others)"
  shows "fst (POST_transfer w (Inr (Obj kvs)))
     = GetCoinsCall (field kvs ''sender'') SUI_coin_type
       # BuildGaslessCall
           [SplitCoins (ObjectRef (coinObjectId senderCoin)) [Pure_u64 (field kvs ''amount'')],
            TransferObjects [NestedResult 0 0] (Recipient (field kvs ''recipient''))]
       # (case buildTransactionKind w
                 [SplitCoins (ObjectRef (coinObjectId senderCoin)) [Pure_u64 (field kvs ''amount'')],
                  TransferObjects [NestedResult 0 0] (Recipient (field kvs ''recipient''))] of
            Inl t \<Rightarrow> []
          | Inr kind \<Rightarrow>
              [SponsorCall \<lparr>txKind = kind, gasless_sender = field kvs ''sender'',
                            gasBudget = Undefined, gasPrice = Undefined\<rparr>])
   \<and> status (snd (POST_transfer w (Inr (Obj kvs)))) \<noteq> 400"
  using assms
  by (simp add: POST_transfer_def Let_def build_and_sponsor_trace build_and_sponsor_response
        transfer_commands_def caught_def split: sum.splits)

theorem first_coin_used_whatever_its_balance_witness:
  "truthy (Str ''0xA'') \<and> truthy (Str ''0xB'') \<and> truthy (Num 100) \<and> \<not> le_zero ex_world (Num 100)
   \<and> getCoins ex_world (Str ''0xA'') SUI_coin_type
       = Inr \<lparr>coins_data = Some [\<lparr>coinObjectId = ''0xC'', coin_balance = 5\<rparr>]\<rparr>
   \<and> fst (POST_transfer ex_world
       (Inr (Obj [(''sender'', Str ''0xA''), (''recipient'', Str ''0xB''), (''amount'', Num 100)])))
     = [GetCoinsCall (Str ''0xA'') SUI_coin_type,
        BuildGaslessCall
          [SplitCoins (ObjectRef ''0xC'') [Pure_u64 (Num 100)],
           TransferObjects [NestedResult 0 0] (Recipient (Str ''0xB''))],
        SponsorCall \<lparr>txKind = ''KIND'', gasless_sender = Str ''0xA'',
                     gasBudget = Undefined, gasPrice = Undefined\<rparr>]
   \<and> status (snd (POST_transfer ex_world
       (Inr (Obj [(''sender'', Str ''0xA''), (''recipient'', Str ''0xB''), (''amount'', Num 100)]))))
     \<noteq> 400"
proof -
  let ?kvs = "[(''sender'', Str ''0xA''), (''recipient'', Str ''0xB''), (''amount'', Num 100)]"
  have f: "field ?kvs ''sender'' = Str ''0xA''" "field ?kvs ''recipient'' = Str ''0xB''"
          "field ?kvs ''amount'' = Num 100"
    by (simp_all add: field_def)
  have a: "truthy (field ?kvs ''sender'')" "truthy (field ?kvs ''recipient'')"
          "truthy (field ?kvs ''amount'')" "\<not> le_zero ex_world (field ?kvs ''amount'')"
    by (simp_all add: f)
  have c: "getCoins ex_world (field ?kvs ''sender'') SUI_coin_type
             = Inr \<lparr>coins_data = Some [\<lparr>coinObjectId = ''0xC'', coin_balance = 5\<rparr>]\<rparr>"
    by (simp add: ex_world_def)
  have d: "coins_data \<lparr>coins_data = Some [\<lparr>coinObjectId = ''0xC'', coin_balance = 5\<rparr>]\<rparr>
             = Some [\<lparr>coinObjectId = ''0xC'', coin_balance = 5\<rparr>]"
    by simp
  have k: "buildTransactionKind ex_world commands = Inr ''KIND''" for commands
    by (simp add: ex_world_def)
  from first_coin_used_whatever_its_balance [OF a c d] a c
  show ?thesis by (simp add: f k)
qed

section \<open>Traces of the routes and of the browser flows\<close>

lemma sponsorings_append [simp]: "sponsorings (xs @ ys) = sponsorings xs @ sponsorings ys"
  by (induction xs rule: sponsorings.induct) simp_all

lemma signings_append [simp]: "signings (xs @ ys) = signings xs @ signings ys"
  by (induction xs rule: signings.induct) simp_all

lemma submissions_append [simp]: "submissions (xs @ ys) = submissions xs @ submissions ys"
  by (induction xs rule: submissions.induct) simp_all

lemma ok_caught [simp]: "\<not> ok (caught m t)"
  by (simp add: ok_def caught_def)

lemma ok_400 [simp]: "\<not> ok (NextResponse b 400)" "\<not> ok (NextResponse b 500)" "ok (NextResponse b 200)"
  by (simp_all add: ok_def)

lemma build_and_sponsor_outcome:
  assumes "signings earlier = []" "submissions earlier = []" "sponsorings earlier = []"
  shows "signings (fst (build_and_sponsor w m earlier commands s)) = []
   \<and> submissions (fst (build_and_sponsor w m earlier commands s)) = []
   \<and> (if ok (snd (build_and_sponsor w m earlier commands s))
      then \<exists>g sp. sponsorings (fst (build_and_sponsor w m earlier commands s)) = [g]
             \<and> sponsorTransaction w g = Inr sp
             \<and> snd (build_and_sponsor w m earlier commands s)
                 = NextResponse (BuildSponsoredTxResponse (sponsored_txBytes sp)
                     (sponsored_signature sp) (sponsored_txDigest sp)) 200
      else \<forall>g \<in> set (sponsorings (fst (build_and_sponsor w m earlier commands s))).
             \<forall>sp. sponsorTransaction w g \<noteq> Inr sp)"
  using assms
  by (auto simp: build_and_sponsor_trace build_and_sponsor_response split: sum.splits)

lemma POST_build_outcome:
  "signings (fst (POST_build w req)) = []
   \<and> submissions (fst (POST_build w req)) = []
   \<and> (if ok (snd (POST_build w req))
      then \<exists>g sp. sponsorings (fst (POST_build w req)) = [g]
             \<and> sponsorTransaction w g = Inr sp
             \<and> snd (POST_build w req)
                 = NextResponse (BuildSponsoredTxResponse (sponsored_txBytes sp)
                     (sponsored_signature sp) (sponsored_txDigest sp)) 200
      else \<forall>g \<in> set (sponsorings (fst (POST_build w req))).
             \<forall>sp. sponsorTransaction w g \<noteq> Inr sp)"
  by (auto simp: POST_build_def Let_def build_and_sponsor_trace build_and_sponsor_response
        split: sum.splits option.splits)

lemma POST_transfer_outcome:
  "signings (fst (POST_transfer w req)) = []
   \<and> submissions (fst (POST_transfer w req)) = []
   \<and> (if ok (snd (POST_transfer w req))
      then \<exists>g sp. sponsorings (fst (POST_transfer w req)) = [g]
             \<and> sponsorTransaction w g = Inr sp
             \<and> snd (POST_transfer w req)
                 = NextResponse (BuildSponsoredTxResponse (sponsored_txBytes sp)
                     (sponsored_signature sp) (sponsored_txDigest sp)) 200
      else \<forall>g \<in> set (sponsorings (fst (POST_transfer w req))).
             \<forall>sp. sponsorTransaction w g \<noteq> Inr sp)"
  by (auto simp: POST_transfer_def Let_def build_and_sponsor_trace build_and_sponsor_response
        split: sum.splits option.splits list.splits)

lemma POST_execute_trace:
  "signings (fst (POST_execute w req)) = []
   \<and> sponsorings (fst (POST_execute w req)) = []
   \<and> (submissions (fst (POST_execute w req)) = []
      \<or> (\<exists>kvs. req = Inr (Obj kvs)
           \<and> truthy (field kvs ''txBytes'') \<and> truthy (field kvs ''sponsorSignature'')
           \<and> truthy (field kvs ''senderSignature'')
           \<and> submissions (fst (POST_execute w req))
               = [(field kvs ''txBytes'',
                   [field kvs ''senderSignature'', field kvs ''sponsorSignature''])]))"
proof (cases req)
  case (Inl t)
  then show ?thesis by (simp add: POST_execute_def)
next
  case (Inr parsed)
  then show ?thesis
    by (cases parsed) (auto simp: POST_execute_def Let_def split: sum.splits)
qed

lemma json_of_build [simp]:
  "json_of (NextResponse (BuildSponsoredTxResponse tb sg dg) s) ''txBytes'' = Str tb"
  "json_of (NextResponse (BuildSponsoredTxResponse tb sg dg) s) ''sponsorSignature'' = Str sg"
  by (simp_all add: json_of_def field_def)

lemma field_execute_body [simp]:
  "field [(''txBytes'', a), (''sponsorSignature'', b), (''senderSignature'', c)] ''txBytes'' = a"
  "field [(''txBytes'', a), (''sponsorSignature'', b), (''senderSignature'', c)] ''sponsorSignature'' = b"
  "field [(''txBytes'', a), (''sponsorSignature'', b), (''senderSignature'', c)] ''senderSignature'' = c"
  by (simp_all add: field_def)

lemma frontend_submit_single:
  "single_operation w ''/api/buildSponsoredTx'' (fst (frontend_submit_try w address st))"
proof (cases "fetch_rejects w ''/api/buildSponsoredTx''")
  case (Some t)
  then show ?thesis by (simp add: frontend_submit_try_def fetch_def)
next
  case None
  define req :: request where
    "req = Inr (Obj [(''sender'', Str address),
                     (''num1'', json_number (parseInt w (num1 st))),
                     (''num2'', json_number (parseInt w (num2 st)))])"
  obtain evs r where run: "POST_build w req = (evs, r)"
    by (cases "POST_build w req")
  from POST_build_outcome [of w req] run
  have quiet: "signings evs = []" "submissions evs = []"
    and sponsored: "ok r \<Longrightarrow> \<exists>g sp. sponsorings evs = [g] \<and> sponsorTransaction w g = Inr sp
           \<and> r = NextResponse (BuildSponsoredTxResponse (sponsored_txBytes sp)
                     (sponsored_signature sp) (sponsored_txDigest sp)) 200"
    and refused: "\<not> ok r \<Longrightarrow> \<forall>g \<in> set (sponsorings evs). \<forall>sp. sponsorTransaction w g \<noteq> Inr sp"
    by (simp_all split: if_splits)
  show ?thesis
  proof (cases "response_lost w ''/api/buildSponsoredTx''")
    case (Some t)
    with None run quiet show ?thesis
      by (simp add: frontend_submit_try_def fetch_def req_def)
  next
    case arrived: None
    show ?thesis
  proof (cases "ok r")
    case False
    with None arrived run quiet refused show ?thesis
      by (simp add: frontend_submit_try_def fetch_def req_def)
  next
    case True
    from sponsored [OF True] obtain g sp where
      g: "sponsorings evs = [g]" "sponsorTransaction w g = Inr sp"
      and r: "r = NextResponse (BuildSponsoredTxResponse (sponsored_txBytes sp)
                     (sponsored_signature sp) (sponsored_txDigest sp)) 200"
      by blast
    from None arrived run quiet g True show ?thesis
      unfolding r
      by (auto simp: frontend_submit_try_def fetch_def req_def Let_def split: sum.splits)
  qed
  qed
qed

lemma backend_submit_single:
  "single_operation w ''/api/buildSponsoredTx'' (fst (backend_submit_try w address st))"
proof (cases "fetch_rejects w ''/api/buildSponsoredTx''")
  case (Some t)
  then show ?thesis by (simp add: backend_submit_try_def fetch_def)
next
  case None
  define req :: request where
    "req = Inr (Obj [(''sender'', Str address),
                     (''num1'', json_number (parseInt w (num1 st))),
                     (''num2'', json_number (parseInt w (num2 st)))])"
  obtain evs r where run: "POST_build w req = (evs, r)"
    by (cases "POST_build w req")
  from POST_build_outcome [of w req] run
  have quiet: "signings evs = []" "submissions evs = []"
    and sponsored: "ok r \<Longrightarrow> \<exists>g sp. sponsorings evs = [g] \<and> sponsorTransaction w g = Inr sp
           \<and> r = NextResponse (BuildSponsoredTxResponse (sponsored_txBytes sp)
                     (sponsored_signature sp) (sponsored_txDigest sp)) 200"
    and refused: "\<not> ok r \<Longrightarrow> \<forall>g \<in> set (sponsorings evs). \<forall>sp. sponsorTransaction w g \<noteq> Inr sp"
    by (simp_all split: if_splits)
  show ?thesis
  proof (cases "response_lost w ''/api/buildSponsoredTx''")
    case (Some t)
    with None run quiet show ?thesis
      by (simp add: backend_submit_try_def fetch_def req_def)
  next
    case arrived: None
    show ?thesis
  proof (cases "ok r")
    case False
    with None arrived run quiet refused show ?thesis
      by (simp add: backend_submit_try_def fetch_def req_def)
  next
    case True
    from sponsored [OF True] obtain g sp where
      g: "sponsorings evs = [g]" "sponsorTransaction w g = Inr sp"
      and r: "r = NextResponse (BuildSponsoredTxResponse (sponsored_txBytes sp)
                     (sponsored_signature sp) (sponsored_txDigest sp)) 200"
      by blast
    have route: "signings (fst (POST_execute w (Inr (Obj
                   [(''txBytes'', a), (''sponsorSignature'', b), (''senderSignature'', c)])))) = []
       \<and> sponsorings (fst (POST_execute w (Inr (Obj
                   [(''txBytes'', a), (''sponsorSignature'', b), (''senderSignature'', c)])))) = []
       \<and> (submissions (fst (POST_execute w (Inr (Obj
                   [(''txBytes'', a), (''sponsorSignature'', b), (''senderSignature'', c)])))) = []
          \<or> submissions (fst (POST_execute w (Inr (Obj
                   [(''txBytes'', a), (''sponsorSignature'', b), (''senderSignature'', c)]))))
              = [(a, [c, b])])" for a b c
      using POST_execute_trace
        [of w "Inr (Obj [(''txBytes'', a), (''sponsorSignature'', b), (''senderSignature'', c)])"]
      by auto
    from None arrived run quiet g True show ?thesis
      unfolding r
      using route
      by (auto simp: backend_submit_try_def fetch_def req_def Let_def case_prod_beta
            split: sum.splits option.splits)
  qed
  qed
qed

lemma transfer_single:
  "single_operation w ''/api/buildTransferTx'' (fst (transfer_try w senderAddress amountNum st))"
proof (cases "fetch_rejects w ''/api/buildTransferTx''")
  case (Some t)
  then show ?thesis by (simp add: transfer_try_def fetch_def)
next
  case None
  define req :: request where
    "req = Inr (Obj [(''sender'', Str senderAddress),
                     (''recipient'', Str (trim (recipient st))),
                     (''amount'', Num (of_int \<lfloor>amountNum * 1000000000\<rfloor>))])"
  obtain evs r where run: "POST_transfer w req = (evs, r)"
    by (cases "POST_transfer w req")
  from POST_transfer_outcome [of w req] run
  have quiet: "signings evs = []" "submissions evs = []"
    and sponsored: "ok r \<Longrightarrow> \<exists>g sp. sponsorings evs = [g] \<and> sponsorTransaction w g = Inr sp
           \<and> r = NextResponse (BuildSponsoredTxResponse (sponsored_txBytes sp)
                     (sponsored_signature sp) (sponsored_txDigest sp)) 200"
    and refused: "\<not> ok r \<Longrightarrow> \<forall>g \<in> set (sponsorings evs). \<forall>sp. sponsorTransaction w g \<noteq> Inr sp"
    by (simp_all split: if_splits)
  show ?thesis
  proof (cases "response_lost w ''/api/buildTransferTx''")
    case (Some t)
    with None run quiet show ?thesis
      by (simp add: transfer_try_def fetch_def req_def)
  next
    case arrived: None
    show ?thesis
  proof (cases "ok r")
    case False
    with None arrived run quiet refused show ?thesis
      by (simp add: transfer_try_def fetch_def req_def)
  next
    case True
    from sponsored [OF True] obtain g sp where
      g: "sponsorings evs = [g]" "sponsorTransaction w g = Inr sp"
      and r: "r = NextResponse (BuildSponsoredTxResponse (sponsored_txBytes sp)
                     (sponsored_signature sp) (sponsored_txDigest sp)) 200"
      by blast
    from None arrived run quiet g True show ?thesis
      unfolding r
      by (auto simp: transfer_try_def fetch_def req_def Let_def split: sum.splits)
  qed
  qed
qed

lemma run_handler_trace:
  "fst (run_handler try_block st) =
     (case currentAccount st of
        None \<Rightarrow> []
      | Some address \<Rightarrow> fst (try_block address (st\<lparr>loading := True, error := [], result := []\<rparr>)))"
  by (simp add: run_handler_def Let_def case_prod_beta split: option.splits sum.splits)

lemma handleFrontendSubmit_single:
  "single_operation w ''/api/buildSponsoredTx'' (fst (handleFrontendSubmit w st))"
proof (cases "currentAccount st")
  case None
  then show ?thesis by (simp add: handleFrontendSubmit_def run_handler_trace)
next
  case (Some address)
  then have run: "fst (handleFrontendSubmit w st)
      = fst (frontend_submit_try w address (st\<lparr>loading := True, error := [], result := []\<rparr>))"
    by (simp add: handleFrontendSubmit_def run_handler_trace)
  show ?thesis unfolding run by (rule frontend_submit_single)
qed

lemma handleBackendSubmit_single:
  "single_operation w ''/api/buildSponsoredTx'' (fst (handleBackendSubmit w st))"
proof (cases "currentAccount st")
  case None
  then show ?thesis by (simp add: handleBackendSubmit_def run_handler_trace)
next
  case (Some address)
  then have run: "fst (handleBackendSubmit w st)
      = fst (backend_submit_try w address (st\<lparr>loading := True, error := [], result := []\<rparr>))"
    by (simp add: handleBackendSubmit_def run_handler_trace)
  show ?thesis unfolding run by (rule backend_submit_single)
qed

lemma handleTransfer_trace:
  "fst (handleTransfer w senderAddress st) = []
   \<or> (\<exists>amountNum st'. fst (handleTransfer w senderAddress st)
                          = fst (transfer_try w senderAddress amountNum st'))"
  by (auto simp: handleTransfer_def Let_def case_prod_beta split: option.splits sum.splits)

lemma handleTransfer_single:
  "single_operation w ''/api/buildTransferTx'' (fst (handleTransfer w senderAddress st))"
proof -
  from handleTransfer_trace [of w senderAddress st]
  consider "fst (handleTransfer w senderAddress st) = []"
    | amountNum st' where "fst (handleTransfer w senderAddress st)
                          = fst (transfer_try w senderAddress amountNum st')"
    by blast
  then show ?thesis
  proof cases
    case 1
    then show ?thesis by simp
  next
    case 2
    show ?thesis unfolding 2 by (rule transfer_single)
  qed
qed

section \<open>The example runs of the three flows\<close>

lemma frontend_run_example:
  "fst (handleFrontendSubmit ex_world ex_home)
     = [BuildGaslessCall [MoveCall ''0xPKG::math::add'' [U64 10, U64 20]],
        SponsorCall \<lparr>txKind = ''KIND'', gasless_sender = Str ''0xA'',
                     gasBudget = Undefined, gasPrice = Undefined\<rparr>,
        SignCall (Str ''TX''),
        ExecuteCall DappKitNode (Str ''TX'') [Str ''USER_SIG'', Str ''SPONSOR_SIG'']]"
  by (simp add: handleFrontendSubmit_def run_handler_def frontend_submit_try_def fetch_def
        POST_build_def build_and_sponsor_def buildGaslessTransaction_def math_commands_def
        u64_max_def field_def json_of_def ok_def Let_def ex_world_def ex_home_def)

lemma backend_run_example:
  "fst (handleBackendSubmit ex_world ex_home)
     = [BuildGaslessCall [MoveCall ''0xPKG::math::add'' [U64 10, U64 20]],
        SponsorCall \<lparr>txKind = ''KIND'', gasless_sender = Str ''0xA'',
                     gasBudget = Undefined, gasPrice = Undefined\<rparr>,
        SignCall (Str ''TX''),
        ExecuteCall ShinamiNode (Str ''TX'') [Str ''USER_SIG'', Str ''SPONSOR_SIG'']]"
  by (simp add: handleBackendSubmit_def run_handler_def backend_submit_try_def fetch_def
        POST_build_def POST_execute_def build_and_sponsor_def buildGaslessTransaction_def
        math_commands_def u64_max_def field_def json_of_def ok_def Let_def ex_world_def
        ex_home_def)

lemma transfer_run_example:
  "fst (handleTransfer ex_world ''0xA'' ex_transfer)
     = [GetCoinsCall (Str ''0xA'') SUI_coin_type,
        BuildGaslessCall
          [SplitCoins (ObjectRef ''0xC'') [Pure_u64 (Num 100000000)],
           TransferObjects [NestedResult 0 0] (Recipient (Str ''0xB''))],
        SponsorCall \<lparr>txKind = ''KIND'', gasless_sender = Str ''0xA'',
                     gasBudget = Undefined, gasPrice = Undefined\<rparr>,
        SignCall (Str ''TX''),
        ExecuteCall DappKitNode (Str ''TX'') [Str ''USER_SIG'', Str ''SPONSOR_SIG'']]"
  by (simp add: handleTransfer_def transfer_try_def fetch_def POST_transfer_def
        build_and_sponsor_def buildGaslessTransaction_def transfer_commands_def trim_def
        is_space_def field_def json_of_def ok_def Let_def ex_world_def ex_transfer_def)

section \<open>The order of the two signatures\<close>

text \<open>
  Claim C2. Every submission to the ledger carries the signature list
  [sender signature, sponsor signature], in this order: in the execute route these are
  the \<open>senderSignature\<close> and \<open>sponsorSignature\<close> members of the request, and in the
  three browser flows (submit from the browser, submit through the execute route,
  transfer) the first is what the wallet returned for the sponsored bytes and the second
  is the signature the gas station returned with them.
\<close>

theorem signatures_sender_then_sponsor:
  "((b, sigs) \<in> set (submissions (fst (POST_execute w (Inr (Obj kvs)))))
      \<longrightarrow> sigs = [field kvs ''senderSignature'', field kvs ''sponsorSignature''])
   \<and> ((b, sigs) \<in> set (submissions (fst (handleFrontendSubmit w st)))
      \<longrightarrow> (\<exists>g sp u. g \<in> set (sponsorings (fst (handleFrontendSubmit w st)))
             \<and> sponsorTransaction w g = Inr sp
             \<and> signTransaction w (Str (sponsored_txBytes sp)) = Inr u
             \<and> sigs = [Str u, Str (sponsored_signature sp)]))
   \<and> ((b, sigs) \<in> set (submissions (fst (handleBackendSubmit w st)))
      \<longrightarrow> (\<exists>g sp u. g \<in> set (sponsorings (fst (handleBackendSubmit w st)))
             \<and> sponsorTransaction w g = Inr sp
             \<and> signTransaction w (Str (sponsored_txBytes sp)) = Inr u
             \<and> sigs = [Str u, Str (sponsored_signature sp)]))
   \<and> ((b, sigs) \<in> set (submissions (fst (handleTransfer w senderAddress tst)))
      \<longrightarrow> (\<exists>g sp u. g \<in> set (sponsorings (fst (handleTransfer w senderAddress tst)))
             \<and> sponsorTransaction w g = Inr sp
             \<and> signTransaction w (Str (sponsored_txBytes sp)) = Inr u
             \<and> sigs = [Str u, Str (sponsored_signature sp)]))"
proof -
  have route: "sigs = [field kvs ''senderSignature'', field kvs ''sponsorSignature'']"
    if "(b, sigs) \<in> set (submissions (fst (POST_execute w (Inr (Obj kvs)))))"
    using that POST_execute_trace [of w "Inr (Obj kvs)"] by auto
  have flow: "\<exists>g sp u. g \<in> set (sponsorings evs) \<and> sponsorTransaction w g = Inr sp
             \<and> signTransaction w (Str (sponsored_txBytes sp)) = Inr u
             \<and> sigs = [Str u, Str (sponsored_signature sp)]"
    if shape: "single_operation w url evs" and sub: "(b, sigs) \<in> set (submissions evs)"
    for evs url
  proof -
    from shape sub obtain g sp where
      g: "sponsorings evs = [g]" "sponsorTransaction w g = Inr sp"
      and s: "case signTransaction w (Str (sponsored_txBytes sp)) of
                Inl t \<Rightarrow> submissions evs = []
              | Inr u \<Rightarrow> submissions evs = []
                  \<or> submissions evs
                      = [(Str (sponsored_txBytes sp), [Str u, Str (sponsored_signature sp)])]"
      by auto
    show ?thesis
    proof (cases "signTransaction w (Str (sponsored_txBytes sp))")
      case (Inl t)
      with s sub show ?thesis by simp
    next
      case (Inr u)
      with s sub g show ?thesis by auto
    qed
  qed
  from route flow [OF handleFrontendSubmit_single] flow [OF handleBackendSubmit_single]
    flow [OF handleTransfer_single]
  show ?thesis by blast
qed

theorem signatures_sender_then_sponsor_witness:
  "(Str ''TX'', [Str ''USER_SIG'', Str ''SPONSOR_SIG''])
      \<in> set (submissions (fst (POST_execute ex_world
           (Inr (Obj [(''txBytes'', Str ''TX''), (''sponsorSignature'', Str ''SPONSOR_SIG''),
                      (''senderSignature'', Str ''USER_SIG'')])))))
   \<and> (Str ''TX'', [Str ''USER_SIG'', Str ''SPONSOR_SIG''])
      \<in> set (submissions (fst (handleFrontendSubmit ex_world ex_home)))
   \<and> (Str ''TX'', [Str ''USER_SIG'', Str ''SPONSOR_SIG''])
      \<in> set (submissions (fst (handleBackendSubmit ex_world ex_home)))
   \<and> (Str ''TX'', [Str ''USER_SIG'', Str ''SPONSOR_SIG''])
      \<in> set (submissions (fst (handleTransfer ex_world ''0xA'' ex_transfer)))
   \<and> (\<exists>g sp u. g \<in> set (sponsorings (fst (handleFrontendSubmit ex_world ex_home)))
         \<and> sponsorTransaction ex_world g = Inr sp
         \<and> signTransaction ex_world (Str (sponsored_txBytes sp)) = Inr u
         \<and> [Str ''USER_SIG'', Str ''SPONSOR_SIG''] = [Str u, Str (sponsored_signature sp)])
   \<and> (\<exists>g sp u. g \<in> set (sponsorings (fst (handleBackendSubmit ex_world ex_home)))
         \<and> sponsorTransaction ex_world g = Inr sp
         \<and> signTransaction ex_world (Str (sponsored_txBytes sp)) = Inr u
         \<and> [Str ''USER_SIG'', Str ''SPONSOR_SIG''] = [Str u, Str (sponsored_signature sp)])
   \<and> (\<exists>g sp u. g \<in> set (sponsorings (fst (handleTransfer ex_world ''0xA'' ex_transfer)))
         \<and> sponsorTransaction ex_world g = Inr sp
         \<and> signTransaction ex_world (Str (sponsored_txBytes sp)) = Inr u
         \<and> [Str ''USER_SIG'', Str ''SPONSOR_SIG''] = [Str u, Str (sponsored_signature sp)])"
proof -
  let ?kvs = "[(''txBytes'', Str ''TX''), (''sponsorSignature'', Str ''SPONSOR_SIG''),
               (''senderSignature'', Str ''USER_SIG'')]"
  have r: "(Str ''TX'', [Str ''USER_SIG'', Str ''SPONSOR_SIG''])
      \<in> set (submissions (fst (POST_execute ex_world (Inr (Obj ?kvs)))))"
    by (simp add: POST_execute_def ex_world_def)
  have f: "(Str ''TX'', [Str ''USER_SIG'', Str ''SPONSOR_SIG''])
      \<in> set (submissions (fst (handleFrontendSubmit ex_world ex_home)))"
    by (simp add: frontend_run_example)
  have b: "(Str ''TX'', [Str ''USER_SIG'', Str ''SPONSOR_SIG''])
      \<in> set (submissions (fst (handleBackendSubmit ex_world ex_home)))"
    by (simp add: backend_run_example)
  have t: "(Str ''TX'', [Str ''USER_SIG'', Str ''SPONSOR_SIG''])
      \<in> set (submissions (fst (handleTransfer ex_world ''0xA'' ex_transfer)))"
    by (simp add: transfer_run_example)
  from r f b t
    signatures_sender_then_sponsor
      [of "Str ''TX''" "[Str ''USER_SIG'', Str ''SPONSOR_SIG'']" ex_world ?kvs ex_home
          "''0xA''" ex_transfer]
  show ?thesis by blast
qed

section \<open>The bytes that are signed and submitted\<close>

text \<open>
  Claim C7. In each of the three browser flows (submit from the browser, submit through
  the execute route, transfer): whatever the wallet is asked to sign is exactly the bytes
  the gas station returned for the one sponsorship request of the run, and the wallet is
  asked only this once; whatever is submitted to the ledger is exactly the bytes that
  were signed, and it is the only submission; and when the gas station has answered and
  its answer has reached the browser, the wallet is asked exactly once.
\<close>

theorem signed_and_submitted_bytes_are_the_sponsored_bytes:
  "(b \<in> set (signings (fst (handleFrontendSubmit w st)))
      \<longrightarrow> signings (fst (handleFrontendSubmit w st)) = [b]
          \<and> (\<exists>g sp. sponsorings (fst (handleFrontendSubmit w st)) = [g]
                \<and> sponsorTransaction w g = Inr sp \<and> b = Str (sponsored_txBytes sp)))
   \<and> ((b', sigs) \<in> set (submissions (fst (handleFrontendSubmit w st)))
      \<longrightarrow> submissions (fst (handleFrontendSubmit w st)) = [(b', sigs)]
          \<and> signings (fst (handleFrontendSubmit w st)) = [b']
          \<and> (\<exists>g sp. sponsorings (fst (handleFrontendSubmit w st)) = [g]
                \<and> sponsorTransaction w g = Inr sp \<and> b' = Str (sponsored_txBytes sp)))
   \<and> (g \<in> set (sponsorings (fst (handleFrontendSubmit w st)))
        \<and> sponsorTransaction w g = Inr sp \<and> response_lost w ''/api/buildSponsoredTx'' = None
      \<longrightarrow> signings (fst (handleFrontendSubmit w st)) = [Str (sponsored_txBytes sp)])
   \<and> (b \<in> set (signings (fst (handleBackendSubmit w st)))
      \<longrightarrow> signings (fst (handleBackendSubmit w st)) = [b]
          \<and> (\<exists>g sp. sponsorings (fst (handleBackendSubmit w st)) = [g]
                \<and> sponsorTransaction w g = Inr sp \<and> b = Str (sponsored_txBytes sp)))
   \<and> ((b', sigs) \<in> set (submissions (fst (handleBackendSubmit w st)))
      \<longrightarrow> submissions (fst (handleBackendSubmit w st)) = [(b', sigs)]
          \<and> signings (fst (handleBackendSubmit w st)) = [b']
          \<and> (\<exists>g sp. sponsorings (fst (handleBackendSubmit w st)) = [g]
                \<and> sponsorTransaction w g = Inr sp \<and> b' = Str (sponsored_txBytes sp)))
   \<and> (g \<in> set (sponsorings (fst (handleBackendSubmit w st)))
        \<and> sponsorTransaction w g = Inr sp \<and> response_lost w ''/api/buildSponsoredTx'' = None
      \<longrightarrow> signings (fst (handleBackendSubmit w st)) = [Str (sponsored_txBytes sp)])
   \<and> (b \<in> set (signings (fst (handleTransfer w senderAddress tst)))
      \<longrightarrow> signings (fst (handleTransfer w senderAddress tst)) = [b]
          \<and> (\<exists>g sp. sponsorings (fst (handleTransfer w senderAddress tst)) = [g]
                \<and> sponsorTransaction w g = Inr sp \<and> b = Str (sponsored_txBytes sp)))
   \<and> ((b', sigs) \<in> set (submissions (fst (handleTransfer w senderAddress tst)))
      \<longrightarrow> submissions (fst (handleTransfer w senderAddress tst)) = [(b', sigs)]
          \<and> signings (fst (handleTransfer w senderAddress tst)) = [b']
          \<and> (\<exists>g sp. sponsorings (fst (handleTransfer w senderAddress tst)) = [g]
                \<and> sponsorTransaction w g = Inr sp \<and> b' = Str (sponsored_txBytes sp)))
   \<and> (g \<in> set (sponsorings (fst (handleTransfer w senderAddress tst)))
        \<and> sponsorTransaction w g = Inr sp \<and> response_lost w ''/api/buildTransferTx'' = None
      \<longrightarrow> signings (fst (handleTransfer w senderAddress tst)) = [Str (sponsored_txBytes sp)])"
proof -
  have signed: "signings evs = [b]
          \<and> (\<exists>g sp. sponsorings evs = [g]
                \<and> sponsorTransaction w g = Inr sp \<and> b = Str (sponsored_txBytes sp))"
    if shape: "single_operation w url evs" and mem: "b \<in> set (signings evs)" for evs url
    using shape mem by auto
  have submitted: "submissions evs = [(b', sigs)] \<and> signings evs = [b']
          \<and> (\<exists>g sp. sponsorings evs = [g]
                \<and> sponsorTransaction w g = Inr sp \<and> b' = Str (sponsored_txBytes sp))"
    if shape: "single_operation w url evs" and mem: "(b', sigs) \<in> set (submissions evs)"
    for evs url
  proof -
    from shape mem obtain g' sp' where
      g: "sponsorings evs = [g']" "sponsorTransaction w g' = Inr sp'"
      and signed: "signings evs = [Str (sponsored_txBytes sp')]"
      and s: "case signTransaction w (Str (sponsored_txBytes sp')) of
                Inl t \<Rightarrow> submissions evs = []
              | Inr u \<Rightarrow> submissions evs = []
                  \<or> submissions evs
                      = [(Str (sponsored_txBytes sp'), [Str u, Str (sponsored_signature sp')])]"
      by auto
    show ?thesis
    proof (cases "signTransaction w (Str (sponsored_txBytes sp'))")
      case (Inl t)
      with s mem show ?thesis by simp
    next
      case (Inr u)
      with s mem g signed show ?thesis by auto
    qed
  qed
  have once: "signings evs = [Str (sponsored_txBytes sp)]"
    if shape: "single_operation w url evs"
      and sponsored: "g \<in> set (sponsorings evs) \<and> sponsorTransaction w g = Inr sp
                        \<and> response_lost w url = None"
    for evs url
    using shape sponsored by auto
  from signed [OF handleFrontendSubmit_single] submitted [OF handleFrontendSubmit_single]
    once [OF handleFrontendSubmit_single]
    signed [OF handleBackendSubmit_single] submitted [OF handleBackendSubmit_single]
    once [OF handleBackendSubmit_single]
    signed [OF handleTransfer_single] submitted [OF handleTransfer_single]
    once [OF handleTransfer_single]
  show ?thesis by blast
qed

theorem signed_and_submitted_bytes_are_the_sponsored_bytes_witness:
  "Str ''TX'' \<in> set (signings (fst (handleFrontendSubmit ex_world ex_home)))
   \<and> Str ''TX'' \<in> set (signings (fst (handleBackendSubmit ex_world ex_home)))
   \<and> Str ''TX'' \<in> set (signings (fst (handleTransfer ex_world ''0xA'' ex_transfer)))
   \<and> (Str ''TX'', [Str ''USER_SIG'', Str ''SPONSOR_SIG''])
       \<in> set (submissions (fst (handleFrontendSubmit ex_world ex_home)))
   \<and> (Str ''TX'', [Str ''USER_SIG'', Str ''SPONSOR_SIG''])
       \<in> set (submissions (fst (handleBackendSubmit ex_world ex_home)))
   \<and> (Str ''TX'', [Str ''USER_SIG'', Str ''SPONSOR_SIG''])
       \<in> set (submissions (fst (handleTransfer ex_world ''0xA'' ex_transfer)))
   \<and> \<lparr>txKind = ''KIND'', gasless_sender = Str ''0xA'', gasBudget = Undefined, gasPrice = Undefined\<rparr>
      \<in> set (sponsorings (fst (handleFrontendSubmit ex_world ex_home)))
   \<and> \<lparr>txKind = ''KIND'', gasless_sender = Str ''0xA'', gasBudget = Undefined, gasPrice = Undefined\<rparr>
      \<in> set (sponsorings (fst (handleBackendSubmit ex_world ex_home)))
   \<and> \<lparr>txKind = ''KIND'', gasless_sender = Str ''0xA'', gasBudget = Undefined, gasPrice = Undefined\<rparr>
      \<in> set (sponsorings (fst (handleTransfer ex_world ''0xA'' ex_transfer)))
   \<and> response_lost ex_world ''/api/buildSponsoredTx'' = None
   \<and> response_lost ex_world ''/api/buildTransferTx'' = None
   \<and> signings (fst (handleFrontendSubmit ex_world ex_home)) = [Str ''TX'']
   \<and> signings (fst (handleBackendSubmit ex_world ex_home)) = [Str ''TX'']
   \<and> signings (fst (handleTransfer ex_world ''0xA'' ex_transfer)) = [Str ''TX'']
   \<and> submissions (fst (handleFrontendSubmit ex_world ex_home))
       = [(Str ''TX'', [Str ''USER_SIG'', Str ''SPONSOR_SIG''])]
   \<and> submissions (fst (handleBackendSubmit ex_world ex_home))
       = [(Str ''TX'', [Str ''USER_SIG'', Str ''SPONSOR_SIG''])]
   \<and> submissions (fst (handleTransfer ex_world ''0xA'' ex_transfer))
       = [(Str ''TX'', [Str ''USER_SIG'', Str ''SPONSOR_SIG''])]"
proof -
  let ?g = "\<lparr>txKind = ''KIND'', gasless_sender = Str ''0xA'', gasBudget = Undefined,
              gasPrice = Undefined\<rparr>"
  let ?sp = "\<lparr>sponsored_txBytes = ''TX'', sponsored_signature = ''SPONSOR_SIG'',
               sponsored_txDigest = ''DIGEST''\<rparr>"
  have signed: "Str ''TX'' \<in> set (signings (fst (handleFrontendSubmit ex_world ex_home)))"
    "Str ''TX'' \<in> set (signings (fst (handleBackendSubmit ex_world ex_home)))"
    "Str ''TX'' \<in> set (signings (fst (handleTransfer ex_world ''0xA'' ex_transfer)))"
    by (simp_all add: frontend_run_example backend_run_example transfer_run_example)
  have submitted: "(Str ''TX'', [Str ''USER_SIG'', Str ''SPONSOR_SIG''])
       \<in> set (submissions (fst (handleFrontendSubmit ex_world ex_home)))"
    "(Str ''TX'', [Str ''USER_SIG'', Str ''SPONSOR_SIG''])
       \<in> set (submissions (fst (handleBackendSubmit ex_world ex_home)))"
    "(Str ''TX'', [Str ''USER_SIG'', Str ''SPONSOR_SIG''])
       \<in> set (submissions (fst (handleTransfer ex_world ''0xA'' ex_transfer)))"
    by (simp_all add: frontend_run_example backend_run_example transfer_run_example)
  have sponsored: "?g \<in> set (sponsorings (fst (handleFrontendSubmit ex_world ex_home)))"
    "?g \<in> set (sponsorings (fst (handleBackendSubmit ex_world ex_home)))"
    "?g \<in> set (sponsorings (fst (handleTransfer ex_world ''0xA'' ex_transfer)))"
    by (simp_all add: frontend_run_example backend_run_example transfer_run_example)
  have answered: "sponsorTransaction ex_world ?g = Inr ?sp"
    by (simp add: ex_world_def)
  have arrived: "response_lost ex_world ''/api/buildSponsoredTx'' = None"
    "response_lost ex_world ''/api/buildTransferTx'' = None"
    by (simp_all add: ex_world_def)
  from signed submitted sponsored answered arrived
    signed_and_submitted_bytes_are_the_sponsored_bytes
      [of "Str ''TX''" ex_world ex_home "Str ''TX''" "[Str ''USER_SIG'', Str ''SPONSOR_SIG'']"
          ?g ?sp "''0xA''" ex_transfer]
  show ?thesis by blast
qed

section \<open>Which contract call is built\<close>

text \<open>
  Claim C9, as stated: the \<open>add\<close> call is constructed if and only if both numbers are
  defined in the body. It fails: with \<open>num1\<close> \<^verbatim>\<open>null\<close> (or \<open>-1\<close>) and
  \<open>num2\<close> 5 both are defined, yet \<^verbatim>\<open>txb.pure.u64\<close> throws before the call is
  constructed, nothing is built and the route answers 500. The page sends such a request
  itself: with the first number field empty it posts \<^verbatim>\<open>null\<close>, and no
  collaborator is called.
\<close>

theorem add_call_counterexample:
  "field [(''sender'', Str ''0xA''), (''num1'', Null), (''num2'', Num 5)] ''num1'' \<noteq> Undefined
   \<and> field [(''sender'', Str ''0xA''), (''num1'', Null), (''num2'', Num 5)] ''num2'' \<noteq> Undefined
   \<and> POST_build ex_world
       (Inr (Obj [(''sender'', Str ''0xA''), (''num1'', Null), (''num2'', Num 5)]))
     = ([], NextResponse (ErrorResponse build_failed_message (Some ''Invalid u64 value'')) 500)
   \<and> POST_build ex_world
       (Inr (Obj [(''sender'', Str ''0xA''), (''num1'', Num (- 1)), (''num2'', Num 5)]))
     = ([], NextResponse (ErrorResponse build_failed_message (Some ''Invalid u64 value'')) 500)
   \<and> fst (handleFrontendSubmit ex_world ex_home_empty_field) = []"
  by (simp add: POST_build_def Let_def field_def ex_world_def math_commands_def caught_def
        handleFrontendSubmit_def run_handler_def frontend_submit_try_def fetch_def ok_def
        json_of_def ex_home_empty_field_def ex_home_def)

text \<open>
  Claim C9, amended. For a request with a sender and a configured package id: the
  \<open>add\<close> call is the command handed to the builder exactly when both \<open>num1\<close> and
  \<open>num2\<close> are defined and \<^verbatim>\<open>txb.pure.u64\<close> accepts both, and then its
  arguments are the two encoded values; when both are defined and one of them is no u64,
  nothing is built and the route answers 500; when either is undefined the command is
  the \<open>hello_world\<close> call without arguments and the route behaves exactly as for the
  request that names the sender alone, so no error is raised for the missing number. The
  answer is never a 400, and it is a 200 whenever the SDK builds the command and the gas
  station sponsors it.
\<close>

theorem add_built_iff_both_numbers_are_u64:
  assumes "truthy (field kvs ''sender'')"
      and "NEXT_PUBLIC_MOVE_PACKAGE_ID w = Some packageId"
      and "packageId \<noteq> []"
  shows "((\<exists>a b rest. fst (POST_build w (Inr (Obj kvs)))
                      = BuildGaslessCall [MoveCall (packageId @ ''::math::add'') [a, b]] # rest)
          \<longleftrightarrow> (field kvs ''num1'' \<noteq> Undefined \<and> field kvs ''num2'' \<noteq> Undefined
               \<and> (\<exists>a b. pure_u64 w (field kvs ''num1'') = Inr a
                         \<and> pure_u64 w (field kvs ''num2'') = Inr b)))
    \<and> (field kvs ''num1'' \<noteq> Undefined \<and> field kvs ''num2'' \<noteq> Undefined
         \<and> pure_u64 w (field kvs ''num1'') = Inr a \<and> pure_u64 w (field kvs ''num2'') = Inr b
        \<longrightarrow> (\<exists>rest. fst (POST_build w (Inr (Obj kvs)))
                      = BuildGaslessCall [MoveCall (packageId @ ''::math::add'') [a, b]] # rest))
    \<and> (field kvs ''num1'' \<noteq> Undefined \<and> field kvs ''num2'' \<noteq> Undefined
         \<and> (pure_u64 w (field kvs ''num1'') = Inl t
              \<or> pure_u64 w (field kvs ''num1'') = Inr a \<and> pure_u64 w (field kvs ''num2'') = Inl t)
        \<longrightarrow> POST_build w (Inr (Obj kvs)) = ([], caught build_failed_message t))
    \<and> (field kvs ''num1'' = Undefined \<or> field kvs ''num2'' = Undefined
        \<longrightarrow> (\<exists>rest. fst (POST_build w (Inr (Obj kvs)))
                      = BuildGaslessCall [MoveCall (packageId @ ''::math::hello_world'') []] # rest)
          \<and> POST_build w (Inr (Obj kvs))
              = POST_build w (Inr (Obj [(''sender'', field kvs ''sender'')])))
    \<and> status (snd (POST_build w (Inr (Obj kvs)))) \<noteq> 400
    \<and> (BuildGaslessCall commands \<in> set (fst (POST_build w (Inr (Obj kvs))))
         \<and> buildTransactionKind w commands = Inr kind
         \<and> sponsorTransaction w
               \<lparr>txKind = kind, gasless_sender = field kvs ''sender'',
                gasBudget = Undefined, gasPrice = Undefined\<rparr> = Inr sp
        \<longrightarrow> status (snd (POST_build w (Inr (Obj kvs)))) = 200)"
proof -
  have alone: "field [(''sender'', v)] ''sender'' = v" "field [(''sender'', v)] ''num1'' = Undefined"
    "field [(''sender'', v)] ''num2'' = Undefined" for v
    by (simp_all add: field_def)
  have run: "POST_build w (Inr (Obj kvs))
      = (case math_commands w packageId (field kvs ''num1'') (field kvs ''num2'') of
           Inl t \<Rightarrow> ([], caught build_failed_message t)
         | Inr commands \<Rightarrow>
             build_and_sponsor w build_failed_message [] commands (field kvs ''sender''))"
    using assms by (simp add: POST_build_def)
  have bare: "POST_build w (Inr (Obj [(''sender'', field kvs ''sender'')]))
      = build_and_sponsor w build_failed_message []
          [MoveCall (packageId @ ''::math::hello_world'') []] (field kvs ''sender'')"
    using assms by (simp add: POST_build_def alone math_commands_def)
  have first: "fst (build_and_sponsor w build_failed_message [] commands s)
      = BuildGaslessCall commands # tl (fst (build_and_sponsor w build_failed_message [] commands s))"
    for commands s
    by (simp add: build_and_sponsor_trace)
  have only: "BuildGaslessCall commands' \<in> set (fst (build_and_sponsor w build_failed_message [] commands s))
      \<Longrightarrow> commands' = commands" for commands commands' s
    by (auto simp: build_and_sponsor_trace split: sum.splits)
  have answer: "status (snd (build_and_sponsor w build_failed_message [] commands s)) \<noteq> 400
      \<and> (buildTransactionKind w commands = Inr kind
           \<and> sponsorTransaction w
                 \<lparr>txKind = kind, gasless_sender = s,
                  gasBudget = Undefined, gasPrice = Undefined\<rparr> = Inr sp
           \<longrightarrow> status (snd (build_and_sponsor w build_failed_message [] commands s)) = 200)"
    for commands s
    by (auto simp: build_and_sponsor_response caught_def split: sum.splits)
  consider
      (missing) "field kvs ''num1'' = Undefined \<or> field kvs ''num2'' = Undefined"
    | (first_rejected) t' where
        "field kvs ''num1'' \<noteq> Undefined" "field kvs ''num2'' \<noteq> Undefined"
        "pure_u64 w (field kvs ''num1'') = Inl t'"
    | (second_rejected) a' t' where
        "field kvs ''num1'' \<noteq> Undefined" "field kvs ''num2'' \<noteq> Undefined"
        "pure_u64 w (field kvs ''num1'') = Inr a'" "pure_u64 w (field kvs ''num2'') = Inl t'"
    | (both) a' b' where
        "field kvs ''num1'' \<noteq> Undefined" "field kvs ''num2'' \<noteq> Undefined"
        "pure_u64 w (field kvs ''num1'') = Inr a'" "pure_u64 w (field kvs ''num2'') = Inr b'"
    by (cases "pure_u64 w (field kvs ''num1'')"; cases "pure_u64 w (field kvs ''num2'')") auto
  then show ?thesis
  proof cases
    case missing
    then have m: "math_commands w packageId (field kvs ''num1'') (field kvs ''num2'')
        = Inr [MoveCall (packageId @ ''::math::hello_world'') []]"
      by (auto simp: math_commands_def)
    have r: "POST_build w (Inr (Obj kvs))
        = build_and_sponsor w build_failed_message []
            [MoveCall (packageId @ ''::math::hello_world'') []] (field kvs ''sender'')"
      by (simp add: run m)
    from missing show ?thesis
      unfolding r bare
      using first [of "[MoveCall (packageId @ ''::math::hello_world'') []]" "field kvs ''sender''"]
        only [of commands "[MoveCall (packageId @ ''::math::hello_world'') []]" "field kvs ''sender''"]
        answer [of "[MoveCall (packageId @ ''::math::hello_world'') []]" "field kvs ''sender''"]
      by (auto simp: build_and_sponsor_trace)
  next
    case first_rejected
    then have r: "POST_build w (Inr (Obj kvs)) = ([], caught build_failed_message t')"
      by (simp add: run math_commands_def)
    from first_rejected show ?thesis
      unfolding r by (auto simp: caught_def)
  next
    case second_rejected
    then have r: "POST_build w (Inr (Obj kvs)) = ([], caught build_failed_message t')"
      by (simp add: run math_commands_def)
    from second_rejected show ?thesis
      unfolding r by (auto simp: caught_def)
  next
    case both
    then have r: "POST_build w (Inr (Obj kvs))
        = build_and_sponsor w build_failed_message []
            [MoveCall (packageId @ ''::math::add'') [a', b']] (field kvs ''sender'')"
      by (simp add: run math_commands_def)
    from both show ?thesis
      unfolding r
      using first [of "[MoveCall (packageId @ ''::math::add'') [a', b']]" "field kvs ''sender''"]
        only [of commands "[MoveCall (packageId @ ''::math::add'') [a', b']]" "field kvs ''sender''"]
        answer [of "[MoveCall (packageId @ ''::math::add'') [a', b']]" "field kvs ''sender''"]
      by (auto simp: build_and_sponsor_trace)
  qed
qed

theorem add_built_iff_both_numbers_are_u64_witness:
  "truthy (Str ''0xA'') \<and> NEXT_PUBLIC_MOVE_PACKAGE_ID ex_world = Some ''0xPKG'' \<and> ''0xPKG'' \<noteq> []
   \<and> pure_u64 ex_world (Num 1) = Inr (U64 1) \<and> pure_u64 ex_world (Num 2) = Inr (U64 2)
   \<and> pure_u64 ex_world Null = Inl (Error ''Invalid u64 value'')
   \<and> (\<exists>rest. fst (POST_build ex_world
                     (Inr (Obj [(''sender'', Str ''0xA''), (''num1'', Num 1), (''num2'', Num 2)])))
         = BuildGaslessCall [MoveCall (''0xPKG'' @ ''::math::add'') [U64 1, U64 2]] # rest)
   \<and> POST_build ex_world
       (Inr (Obj [(''sender'', Str ''0xA''), (''num1'', Null), (''num2'', Num 5)]))
     = ([], caught build_failed_message (Error ''Invalid u64 value''))
   \<and> (\<exists>rest. fst (POST_build ex_world (Inr (Obj [(''sender'', Str ''0xA''), (''num1'', Num 1)])))
         = BuildGaslessCall [MoveCall (''0xPKG'' @ ''::math::hello_world'') []] # rest)
   \<and> POST_build ex_world (Inr (Obj [(''sender'', Str ''0xA''), (''num1'', Num 1)]))
     = POST_build ex_world (Inr (Obj [(''sender'', Str ''0xA'')]))
   \<and> status (snd (POST_build ex_world (Inr (Obj [(''sender'', Str ''0xA''), (''num1'', Num 1)]))))
     = 200"
proof -
  let ?one = "[(''sender'', Str ''0xA''), (''num1'', Num 1)]"
  let ?both = "[(''sender'', Str ''0xA''), (''num1'', Num 1), (''num2'', Num 2)]"
  let ?bad = "[(''sender'', Str ''0xA''), (''num1'', Null), (''num2'', Num 5)]"
  let ?hello = "[MoveCall (''0xPKG'' @ ''::math::hello_world'') []]"
  let ?sp = "\<lparr>sponsored_txBytes = ''TX'', sponsored_signature = ''SPONSOR_SIG'',
               sponsored_txDigest = ''DIGEST''\<rparr>"
  have one: "field ?one ''sender'' = Str ''0xA''" "field ?one ''num1'' = Num 1"
    "field ?one ''num2'' = Undefined"
    by (simp_all add: field_def)
  have both: "field ?both ''sender'' = Str ''0xA''" "field ?both ''num1'' = Num 1"
    "field ?both ''num2'' = Num 2"
    by (simp_all add: field_def)
  have bad: "field ?bad ''sender'' = Str ''0xA''" "field ?bad ''num1'' = Null"
    "field ?bad ''num2'' = Num 5"
    by (simp_all add: field_def)
  have p: "NEXT_PUBLIC_MOVE_PACKAGE_ID ex_world = Some ''0xPKG''"
    by (simp add: ex_world_def)
  have n: "''0xPKG'' \<noteq> []" by simp
  have s1: "truthy (field ?one ''sender'')" by (simp add: one)
  have s2: "truthy (field ?both ''sender'')" by (simp add: both)
  have s3: "truthy (field ?bad ''sender'')" by (simp add: bad)
  have u: "pure_u64 ex_world (Num 1) = Inr (U64 1)" "pure_u64 ex_world (Num 2) = Inr (U64 2)"
    "pure_u64 ex_world Null = Inl (Error ''Invalid u64 value'')"
    by (simp_all add: u64_max_def ex_world_def)
  have k: "buildTransactionKind ex_world ?hello = Inr ''KIND''"
    by (simp add: ex_world_def)
  have sp: "sponsorTransaction ex_world
      \<lparr>txKind = ''KIND'', gasless_sender = Str ''0xA'', gasBudget = Undefined,
       gasPrice = Undefined\<rparr> = Inr ?sp"
    by (simp add: ex_world_def)
  from add_built_iff_both_numbers_are_u64
         [OF s1 p n, where commands = ?hello and kind = "''KIND''" and sp = ?sp]
  have first: "(\<exists>rest. fst (POST_build ex_world (Inr (Obj ?one))) = BuildGaslessCall ?hello # rest)
     \<and> POST_build ex_world (Inr (Obj ?one))
       = POST_build ex_world (Inr (Obj [(''sender'', Str ''0xA'')]))
     \<and> status (snd (POST_build ex_world (Inr (Obj ?one)))) = 200"
    unfolding one using k sp by auto
  from add_built_iff_both_numbers_are_u64 [OF s2 p n, where a = "U64 1" and b = "U64 2"]
  have second: "\<exists>rest. fst (POST_build ex_world (Inr (Obj ?both)))
         = BuildGaslessCall [MoveCall (''0xPKG'' @ ''::math::add'') [U64 1, U64 2]] # rest"
    unfolding both using u by blast
  from add_built_iff_both_numbers_are_u64
         [OF s3 p n, where t = "Error ''Invalid u64 value''"]
  have third: "POST_build ex_world (Inr (Obj ?bad))
     = ([], caught build_failed_message (Error ''Invalid u64 value''))"
    unfolding bad using u by simp
  have hyps: "truthy (Str ''0xA'')" by simp
  from hyps p n u first second third show ?thesis by blast
qed

end
